theory Spec2Isabelle
  imports Main "HOL-Library.Sublist"
begin

section \<open>Python strings\<close>

text \<open>
  A Python \<open>str\<close> is modelled as a \<open>string\<close> holding its UTF-8 bytes. Every character the
  scripts test for (\<open>@\<close>, \<open>{\<close>, \<open>}\<close>) is ASCII, and no byte of a longer UTF-8 sequence is
  ASCII, so the tests below see what Python sees on code points.
\<close>

definition startswith :: "string \<Rightarrow> string \<Rightarrow> bool" where
  "startswith s pre = (take (length pre) s = pre)"

fun py_join :: "string \<Rightarrow> string list \<Rightarrow> string" where
  "py_join sep [] = []"
| "py_join sep [x] = x"
| "py_join sep (x # y # ys) = x @ sep @ py_join sep (y # ys)"

subsection \<open>\<open>str.format\<close> with the single keyword argument \<open>platform\<close>\<close>

text \<open>
  Both package generators build a template with an f-string (\<open>base_name\<close> followed by
  \<^verbatim>\<open>-{{platform}}\<close> for a name that starts with an at sign; an at sign, \<open>base_name\<close> and
  \<^verbatim>\<open>/{{platform}}\<close> otherwise) and later call
  \<^verbatim>\<open>platform_name_template.format(platform=key)\<close>. The f-string only pastes \<open>base_name\<close> in
  front of the text \<open>-{platform}\<close> (or between \<open>@\<close> and \<open>/{platform}\<close>); \<open>format\<close> then reads
  the whole template, the pasted name included, as a format string:
  \<^item> \<open>{{\<close> and \<open>}}\<close> are escapes for one brace;
  \<^item> a \<open>}\<close> alone, a \<open>{\<close> at the end, a \<open>{\<close> inside a field name and a field that is not
    closed raise \<open>ValueError\<close>;
  \<^item> \<open>{platform}\<close> is replaced by the argument; \<open>{}\<close> asks for a positional argument and
    raises \<open>IndexError\<close> (there is none); \<open>{name}\<close> for another plain name raises
    \<open>KeyError\<close>.
  Fields that use a conversion (\<open>!\<close>), a format specification (\<open>:\<close>), an attribute (\<open>.\<close>),
  an index (\<open>[\<close>) or a name that is not made of ASCII letters and underscores are outside
  the fragment modelled here; on them the model answers \<open>Beyond\<close> and no theorem below
  says anything about them.
\<close>

datatype py_exception =
  ValueError | KeyError string | IndexError | JSONDecodeError | AttributeError

datatype 'a result = Ok 'a | Raise py_exception | Beyond

definition emit :: "string \<Rightarrow> string result \<Rightarrow> string result" where
  "emit v r = (case r of Ok s \<Rightarrow> Ok (v @ s) | Raise e \<Rightarrow> Raise e | Beyond \<Rightarrow> Beyond)"

definition name_chars :: "char list" where
  "name_chars = ''abcdefghijklmnopqrstuvwxyzABCDEFGHIJKLMNOPQRSTUVWXYZ_''"

definition get_field :: "string \<Rightarrow> string \<Rightarrow> string result" where
  "get_field f p =
     (if f = ''platform'' then Ok p
      else if f = [] then Raise IndexError
      else if list_all (\<lambda>c. List.member name_chars c) f then Raise (KeyError f)
      else Beyond)"

fun render :: "string \<Rightarrow> string \<Rightarrow> string result"
  and render_field :: "string \<Rightarrow> string \<Rightarrow> string \<Rightarrow> string result" where
  "render [] p = Ok []"
| "render (c # cs) p =
     (if c = CHR ''{'' then
        (case cs of
           [] \<Rightarrow> Raise ValueError
         | d # ds \<Rightarrow> if d = CHR ''{'' then emit [c] (render ds p) else render_field [] cs p)
      else if c = CHR ''}'' then
        (case cs of
           [] \<Rightarrow> Raise ValueError
         | d # ds \<Rightarrow> if d = CHR ''}'' then emit [c] (render ds p) else Raise ValueError)
      else emit [c] (render cs p))"
| "render_field f [] p = Raise ValueError"
| "render_field f (c # cs) p =
     (if c = CHR ''{'' then Raise ValueError
      else if c = CHR ''}'' then
        (case get_field f p of
           Ok v \<Rightarrow> emit v (render cs p)
         | Raise e \<Rightarrow> Raise e
         | Beyond \<Rightarrow> Beyond)
      else if c = CHR '':'' \<or> c = CHR ''!'' \<or> c = CHR ''['' \<or> c = CHR ''.'' then Beyond
      else render_field (f @ [c]) cs p)"

definition py_format :: "string \<Rightarrow> string \<Rightarrow> string result" where
  "py_format template platform = render template platform"

section \<open>The platform lists\<close>

text \<open>
  The three hard-coded lists of \<^verbatim>\<open>build-npm-multipackage.py\<close>: the build matrix of
  \<open>build_go_multiplatform\<close> (Go OS, Go architecture, npm OS, npm architecture), the list of
  \<open>create_platform_packages\<close> and the list of \<open>create_main_package\<close>.
\<close>

definition build_platforms :: "(string \<times> string \<times> string \<times> string) list" where
  "build_platforms =
     [(''linux'', ''amd64'', ''linux'', ''x64''),
      (''linux'', ''arm64'', ''linux'', ''arm64''),
      (''darwin'', ''amd64'', ''darwin'', ''x64''),
      (''darwin'', ''arm64'', ''darwin'', ''arm64''),
      (''windows'', ''amd64'', ''win32'', ''x64'')]"

definition package_platforms :: "(string \<times> string) list" where
  "package_platforms =
     [(''win32'', ''x64''),
      (''darwin'', ''x64''),
      (''darwin'', ''arm64''),
      (''linux'', ''x64''),
      (''linux'', ''arm64'')]"

definition main_platforms :: "string list" where
  "main_platforms = [''win32-x64'', ''darwin-x64'', ''darwin-arm64'', ''linux-x64'', ''linux-arm64'']"

definition platform_key :: "string \<Rightarrow> string \<Rightarrow> string" where
  "platform_key npm_os npm_arch = npm_os @ ''-'' @ npm_arch"

section \<open>Naming of the platform packages\<close>

definition platform_name_template :: "string \<Rightarrow> string" where
  "platform_name_template base_name =
     (if startswith base_name ''@'' then base_name @ ''-{platform}''
      else ''@'' @ base_name @ ''/{platform}'')"

definition platform_name :: "string \<Rightarrow> string \<Rightarrow> string result" where
  "platform_name base_name key = py_format (platform_name_template base_name) key"

section \<open>Effects, the outside world and the interpreter state\<close>

text \<open>
  A path is the list of its components below the directory of the script (\<open>root_dir\<close>).
  A run of a script is modelled by state passing: the state holds the dictionary objects
  the script can reach (by address; address \<open>0\<close> is \<open>os.environ\<close>) and the list of the
  effects performed so far, oldest first. Whatever the script asks the operating system
  (does a directory exist, what does a command return) is answered by the \<open>world\<close>.
  Output printed to the console by the Python scripts is not modelled, and neither are
  exceptions of the operating system (permissions, full disks).
\<close>

type_synonym path = "string list"

type_synonym env = "string \<rightharpoonup> string"

text \<open>
  An entry of a directory listing is a file, a directory, or neither (\<open>is_file()\<close> and
  \<open>is_dir()\<close> both false). \<open>subprocess.run\<close> is given an argument vector, or one string
  for the shell.
\<close>

datatype kind = File | Dir | Other

datatype invocation = Exec "string list" | Shell string

record platform_manifest =
  pm_name :: string
  pm_version :: string
  pm_description :: string
  pm_os :: "string list"
  pm_cpu :: "string list"
  pm_homepage :: string
  pm_repository :: "(string \<times> string) list"
  pm_author :: string
  pm_license :: string

record main_manifest =
  mm_name :: string
  mm_version :: string
  mm_description :: string
  mm_bin :: "(string \<times> string) list"
  mm_optionalDependencies :: "(string \<times> string) list"
  mm_keywords :: "string list"
  mm_author :: string
  mm_license :: string
  mm_repository :: "(string \<times> string) list"
  mm_homepage :: string
  mm_engines :: "(string \<times> string) list"

text \<open>
  The launcher script is a fixed JavaScript text with two holes: the lines of the
  \<open>PLATFORMS\<close> object literal and the package name pasted into the reinstall advice.
\<close>

record launcher =
  l_platforms :: "(string \<times> string) list"
  l_base_name :: string

text \<open>
  The effects. \<open>Run i cwd e rc\<close> is a call of \<open>subprocess.run\<close>: the command, the working
  directory, the environment passed (\<open>None\<close> when the child inherits the parent's) and the
  return code of the child.
\<close>

datatype action =
    Rmtree path
  | Mkdir path
  | Unlink path
  | Copy2 path path
  | Copytree path path
  | Touch path
  | WritePlatformJson path platform_manifest
  | WriteMainJson path main_manifest
  | WriteLauncher path launcher
  | Run invocation path "env option" int

record pystate =
  heap :: "nat \<Rightarrow> env"
  next_addr :: nat
  effects :: "action list"

text \<open>
  A function of a script returns a value, or an exception leaves it, or \<open>format\<close> was asked
  something outside the modelled fragment.
\<close>

datatype outcome = Returned int | Raised py_exception | BeyondModel

text \<open>
  The answers of the outside world to the build script: the platform, how a path prints,
  which directories exist, the listings of \<open>static\<close> and of \<open>ui/dist\<close>, whether an entry of
  that name exists in \<open>static\<close> when it is copied, the return code of a command (it may
  depend on the command, the working directory and the environment passed), and the size
  of a file the toolchain has written (\<open>None\<close> when the file is not there).
\<close>

record world =
  is_windows :: bool
  path_str :: "path \<Rightarrow> string"
  npm_packages_exists :: bool
  ui_exists :: bool
  static_listing :: "(string \<times> kind) list option"
  dist_listing :: "(string \<times> kind) list option"
  dest_exists :: "string \<Rightarrow> bool"
  subprocess :: "invocation \<Rightarrow> path \<Rightarrow> env option \<Rightarrow> int"
  output_size :: "path \<Rightarrow> nat option"

definition os_environ :: nat where
  "os_environ = 0"

definition perform :: "action \<Rightarrow> pystate \<Rightarrow> pystate" where
  "perform a st = st\<lparr>effects := effects st @ [a]\<rparr>"

definition dict_copy :: "nat \<Rightarrow> pystate \<Rightarrow> nat \<times> pystate" where
  "dict_copy a st =
     (next_addr st,
      st\<lparr>heap := (heap st)(next_addr st := heap st a), next_addr := Suc (next_addr st)\<rparr>)"

definition dict_set :: "nat \<Rightarrow> string \<Rightarrow> string \<Rightarrow> pystate \<Rightarrow> pystate" where
  "dict_set a k v st = st\<lparr>heap := (heap st)(a := (heap st a)(k \<mapsto> v))\<rparr>"

text \<open>
  \<open>dict.copy\<close> makes a new object with the same content; a store into a dictionary
  changes the object at that address only. The state in which a script starts:
  \<open>os.environ\<close> is the only dictionary, nothing has been done.
\<close>

definition init_state :: "env \<Rightarrow> pystate" where
  "init_state environ =
     \<lparr>heap = (\<lambda>a. if a = os_environ then environ else Map.empty),
      next_addr = Suc os_environ,
      effects = []\<rparr>"

definition root_dir :: path where
  "root_dir = []"

definition ui_dir :: path where
  "ui_dir = root_dir @ [''ui'']"

definition dist_dir :: path where
  "dist_dir = ui_dir @ [''dist'']"

definition static_dir :: path where
  "static_dir = root_dir @ [''static'']"

definition npm_packages_dir :: path where
  "npm_packages_dir = root_dir @ [''npm-packages'']"

section \<open>\<^verbatim>\<open>build-npm-multipackage.py\<close>\<close>

subsection \<open>\<open>run_command\<close>, \<open>clean_static_dir\<close>, \<open>copy_dist_to_static\<close>\<close>

definition run_command ::
  "world \<Rightarrow> string list \<Rightarrow> path \<Rightarrow> bool \<Rightarrow> env option \<Rightarrow> pystate \<Rightarrow> outcome \<times> pystate" where
  "run_command w cmd cwd shell e st =
     (if shell then
        (case cmd of
           [] \<Rightarrow> (Raised IndexError, st)
         | c # _ \<Rightarrow>
             (let rc = subprocess w (Shell c) cwd e
              in (Returned rc, perform (Run (Shell c) cwd e rc) st)))
      else
        (let rc = subprocess w (Exec cmd) cwd e
         in (Returned rc, perform (Run (Exec cmd) cwd e rc) st)))"

fun clean_items :: "(string \<times> kind) list \<Rightarrow> pystate \<Rightarrow> pystate" where
  "clean_items [] st = st"
| "clean_items ((name, k) # items) st =
     (if name = ''README.md'' then clean_items items st
      else if k = File then clean_items items (perform (Unlink (static_dir @ [name])) st)
      else if k = Dir then clean_items items (perform (Rmtree (static_dir @ [name])) st)
      else clean_items items st)"

definition clean_static_dir :: "world \<Rightarrow> pystate \<Rightarrow> pystate" where
  "clean_static_dir w st =
     (case static_listing w of
        None \<Rightarrow> perform (Mkdir static_dir) st
      | Some items \<Rightarrow> clean_items items st)"

fun copy_items :: "world \<Rightarrow> (string \<times> kind) list \<Rightarrow> pystate \<Rightarrow> pystate" where
  "copy_items w [] st = st"
| "copy_items w ((name, k) # items) st =
     (let src = dist_dir @ [name]; dest = static_dir @ [name]
      in if k = File then copy_items w items (perform (Copy2 src dest) st)
         else if k = Dir then
           copy_items w items
             (perform (Copytree src dest)
                (if dest_exists w name then perform (Rmtree dest) st else st))
         else copy_items w items st)"

definition copy_dist_to_static :: "world \<Rightarrow> pystate \<Rightarrow> bool \<times> pystate" where
  "copy_dist_to_static w st =
     (case dist_listing w of
        None \<Rightarrow> (False, st)
      | Some items \<Rightarrow> (True, copy_items w items st))"

subsection \<open>\<open>build_go_multiplatform\<close>\<close>

definition ldflags_parts :: "string \<Rightarrow> string \<Rightarrow> string \<Rightarrow> string \<Rightarrow> string list" where
  "ldflags_parts version_main version_prerelease version_build_metadata app_channel =
     [''-s'', ''-w'']
     @ (if version_main \<noteq> [] then [''-X 'main.VERSION_MAIN='' @ version_main @ [CHR 0x27]] else [])
     @ [''-X 'main.VERSION_PRERELEASE='' @ version_prerelease @ [CHR 0x27]]
     @ (if version_build_metadata \<noteq> []
        then [''-X 'main.VERSION_BUILD_METADATA='' @ version_build_metadata @ [CHR 0x27]] else [])
     @ (if app_channel \<noteq> [] then [''-X 'main.APP_CHANNEL='' @ app_channel @ [CHR 0x27]] else [])"

definition ldflags_of :: "string \<Rightarrow> string \<Rightarrow> string \<Rightarrow> string \<Rightarrow> string" where
  "ldflags_of version_main version_prerelease version_build_metadata app_channel =
     py_join '' '' (ldflags_parts version_main version_prerelease version_build_metadata app_channel)"

definition output_name_of :: "string \<Rightarrow> string" where
  "output_name_of goos = ''codekanban'' @ (if goos = ''windows'' then ''.exe'' else [])"

definition build_cmd_of :: "world \<Rightarrow> string \<Rightarrow> path \<Rightarrow> string list" where
  "build_cmd_of w ldflags output_path =
     [''go'', ''build'', ''-ldflags='' @ ldflags, ''-trimpath'', ''-o'', path_str w output_path, ''.'']"

text \<open>
  One turn of the loop over the build matrix: the package directory is created, a copy
  of \<open>os.environ\<close> is made and extended, the toolchain runs with that copy. The running
  totals \<open>success_count\<close> and \<open>total_size\<close> are only printed.
\<close>

definition build_target ::
  "world \<Rightarrow> string \<Rightarrow> string \<times> string \<times> string \<times> string \<Rightarrow> pystate \<Rightarrow> int \<times> path \<times> pystate" where
  "build_target w ldflags target st =
     (case target of (goos, goarch, npm_os, npm_arch) \<Rightarrow>
        (let platform_package_dir = npm_packages_dir @ [platform_key npm_os npm_arch];
             st1 = perform (Mkdir platform_package_dir) st;
             output_path = platform_package_dir @ [output_name_of goos];
             (e, st2) = dict_copy os_environ st1;
             st3 = dict_set e ''GOOS'' goos st2;
             st4 = dict_set e ''GOARCH'' goarch st3;
             st5 = dict_set e ''CGO_ENABLED'' ''0'' st4;
             build_cmd = build_cmd_of w ldflags output_path;
             rc = subprocess w (Exec build_cmd) root_dir (Some (heap st5 e))
         in (rc, output_path, perform (Run (Exec build_cmd) root_dir (Some (heap st5 e)) rc) st5)))"

fun build_loop ::
  "world \<Rightarrow> string \<Rightarrow> (string \<times> string \<times> string \<times> string) list \<Rightarrow> nat \<Rightarrow> nat \<Rightarrow> pystate
     \<Rightarrow> int \<times> pystate" where
  "build_loop w ldflags [] success_count total_size st = (0, st)"
| "build_loop w ldflags (target # targets) success_count total_size st =
     (case build_target w ldflags target st of (rc, output_path, st') \<Rightarrow>
        if rc \<noteq> 0 then (rc, st')
        else (case output_size w output_path of
                Some size_bytes \<Rightarrow>
                  build_loop w ldflags targets (Suc success_count) (total_size + size_bytes) st'
              | None \<Rightarrow> build_loop w ldflags targets success_count total_size st'))"

definition build_go_multiplatform ::
  "world \<Rightarrow> string \<Rightarrow> string \<Rightarrow> string \<Rightarrow> string \<Rightarrow> pystate \<Rightarrow> int \<times> pystate" where
  "build_go_multiplatform w version_main version_prerelease version_build_metadata app_channel st =
     build_loop w (ldflags_of version_main version_prerelease version_build_metadata app_channel)
       build_platforms 0 0 st"

subsection \<open>\<open>create_platform_packages\<close>\<close>

definition platform_package_json :: "string \<Rightarrow> string \<Rightarrow> string \<Rightarrow> string \<Rightarrow> platform_manifest" where
  "platform_package_json name version npm_os npm_arch =
     \<lparr>pm_name = name,
      pm_version = version,
      pm_description =
        ''Platform-specific binary for '' @ platform_key npm_os npm_arch
        @ ''. Install 'codekanban' instead: https://www.npmjs.com/package/codekanban'',
      pm_os = [npm_os],
      pm_cpu = [npm_arch],
      pm_homepage = ''https://www.npmjs.com/package/codekanban'',
      pm_repository = [(''type'', ''git''), (''url'', ''https://github.com/fy0/CodeKanban'')],
      pm_author = ''fy0'',
      pm_license = ''Apache-2.0''\<rparr>"

text \<open>
  The loop of \<open>create_platform_packages\<close>: the marker file is touched first, then the
  name is formatted (which may raise), then the manifest is written.
\<close>

fun platform_packages_loop ::
  "string \<Rightarrow> string \<Rightarrow> (string \<times> string) list \<Rightarrow> pystate \<Rightarrow> outcome \<times> pystate" where
  "platform_packages_loop template version [] st = (Returned 0, st)"
| "platform_packages_loop template version ((npm_os, npm_arch) # platforms) st =
     (let platform_dir = npm_packages_dir @ [platform_key npm_os npm_arch];
          st1 = perform (Touch (platform_dir @ [''.npm-global''])) st;
          key = platform_key npm_os npm_arch
      in case py_format template key of
           Raise e \<Rightarrow> (Raised e, st1)
         | Beyond \<Rightarrow> (BeyondModel, st1)
         | Ok name \<Rightarrow>
             platform_packages_loop template version platforms
               (perform
                  (WritePlatformJson (platform_dir @ [''package.json''])
                     (platform_package_json name version npm_os npm_arch))
                  st1))"

definition create_platform_packages :: "string \<Rightarrow> string \<Rightarrow> pystate \<Rightarrow> outcome \<times> pystate" where
  "create_platform_packages version base_name st =
     platform_packages_loop (platform_name_template base_name) version package_platforms st"

subsection \<open>\<open>create_main_package\<close>\<close>

fun format_all :: "string \<Rightarrow> string list \<Rightarrow> string list result" where
  "format_all template [] = Ok []"
| "format_all template (p # ps) =
     (case py_format template p of
        Raise e \<Rightarrow> Raise e
      | Beyond \<Rightarrow> Beyond
      | Ok name \<Rightarrow>
          (case format_all template ps of
             Raise e \<Rightarrow> Raise e
           | Beyond \<Rightarrow> Beyond
           | Ok names \<Rightarrow> Ok (name # names)))"

text \<open>A Python \<open>dict\<close> keeps insertion order; storing under a key it has replaces the value in place.\<close>

fun dict_setitem :: "'k \<Rightarrow> 'v \<Rightarrow> ('k \<times> 'v) list \<Rightarrow> ('k \<times> 'v) list" where
  "dict_setitem k v [] = [(k, v)]"
| "dict_setitem k v ((k', v') # d) =
     (if k' = k then (k, v) # d else (k', v') # dict_setitem k v d)"

fun dict_of :: "('k \<times> 'v) list \<Rightarrow> ('k \<times> 'v) list \<Rightarrow> ('k \<times> 'v) list" where
  "dict_of [] d = d"
| "dict_of ((k, v) # kvs) d = dict_of kvs (dict_setitem k v d)"

definition main_package_json :: "string \<Rightarrow> string \<Rightarrow> (string \<times> string) list \<Rightarrow> main_manifest" where
  "main_package_json base_name version optional_deps =
     \<lparr>mm_name = base_name,
      mm_version = version,
      mm_description = ''An auxiliary programming tool for the AI era, helping you speed up 10x.'',
      mm_bin = [(''codekanban'', ''npm-bin/codekanban.js'')],
      mm_optionalDependencies = optional_deps,
      mm_keywords =
        [''ai'', ''coding'', ''kanban'', ''terminal'', ''productivity'', ''developer-tools'',
         ''worktree'', ''git''],
      mm_author = ''fy0'',
      mm_license = ''Apache-2.0'',
      mm_repository = [(''type'', ''git''), (''url'', ''https://github.com/fy0/CodeKanban'')],
      mm_homepage = ''https://github.com/fy0/CodeKanban#readme'',
      mm_engines = [(''node'', ''>=14.0.0'')]\<rparr>"

text \<open>
  \<open>platforms_mapping\<close> is the content of the launcher's \<open>PLATFORMS\<close> table (one line
  \<^verbatim>\<open>'key': 'name',\<close> per platform); \<open>optional_deps\<close> is the dictionary comprehension over
  the same list with the same template.
\<close>

definition platforms_mapping :: "string \<Rightarrow> (string \<times> string) list result" where
  "platforms_mapping template =
     (case format_all template main_platforms of
        Raise e \<Rightarrow> Raise e
      | Beyond \<Rightarrow> Beyond
      | Ok names \<Rightarrow> Ok (zip main_platforms names))"

definition optional_deps_of :: "string \<Rightarrow> string \<Rightarrow> (string \<times> string) list result" where
  "optional_deps_of template version =
     (case format_all template main_platforms of
        Raise e \<Rightarrow> Raise e
      | Beyond \<Rightarrow> Beyond
      | Ok names \<Rightarrow> Ok (dict_of (map (\<lambda>name. (name, version)) names) []))"

definition create_main_package :: "string \<Rightarrow> string \<Rightarrow> pystate \<Rightarrow> outcome \<times> pystate" where
  "create_main_package version base_name st =
     (let platform_name_template = platform_name_template base_name
      in case platforms_mapping platform_name_template of
           Raise e \<Rightarrow> (Raised e, st)
         | Beyond \<Rightarrow> (BeyondModel, st)
         | Ok mapping \<Rightarrow>
             (let bin_dir = root_dir @ [''npm-bin''];
                  st1 = perform (Mkdir bin_dir) st;
                  st2 = perform
                          (WriteLauncher (bin_dir @ [''codekanban.js''])
                             \<lparr>l_platforms = mapping, l_base_name = base_name\<rparr>)
                          st1
              in case optional_deps_of platform_name_template version of
                   Raise e \<Rightarrow> (Raised e, st2)
                 | Beyond \<Rightarrow> (BeyondModel, st2)
                 | Ok optional_deps \<Rightarrow>
                     (Returned 0,
                      perform
                        (WriteMainJson (root_dir @ [''package.json''])
                           (main_package_json base_name version optional_deps))
                        st2)))"

subsection \<open>\<open>main\<close>\<close>

record args =
  a_version :: string
  a_package_name :: string
  a_version_main :: string
  a_version_prerelease :: string
  a_version_build_metadata :: string
  a_app_channel :: string

definition build_main :: "world \<Rightarrow> args \<Rightarrow> pystate \<Rightarrow> outcome \<times> pystate" where
  "build_main w a st =
     (let st1 = (if npm_packages_exists w then perform (Rmtree npm_packages_dir) st else st);
          st2 = perform (Mkdir npm_packages_dir) st1
      in if \<not> ui_exists w then (Returned 1, st2)
         else
           (case (if is_windows w then run_command w [''pnpm build''] ui_dir True None st2
                  else run_command w [''pnpm'', ''build''] ui_dir False None st2) of
              (Returned ret, st3) \<Rightarrow>
                if ret \<noteq> 0 then (Returned ret, st3)
                else
                  (case copy_dist_to_static w (clean_static_dir w st3) of
                     (copied, st5) \<Rightarrow>
                       if \<not> copied then (Returned 1, st5)
                       else
                         (case build_go_multiplatform w (a_version_main a) (a_version_prerelease a)
                                 (a_version_build_metadata a) (a_app_channel a) st5 of
                            (ret, st6) \<Rightarrow>
                              if ret \<noteq> 0 then (Returned ret, st6)
                              else
                                (case create_platform_packages (a_version a) (a_package_name a) st6 of
                                   (Returned ret, st7) \<Rightarrow>
                                     if ret \<noteq> 0 then (Returned ret, st7)
                                     else create_main_package (a_version a) (a_package_name a) st7
                                 | (other, st7) \<Rightarrow> (other, st7))))
            | (other, st3) \<Rightarrow> (other, st3)))"

section \<open>The launcher \<^verbatim>\<open>npm-bin/codekanban.js\<close>\<close>

text \<open>
  The JavaScript that \<open>create_main_package\<close> writes, run by Node on the user's machine.
  The host answers what the script asks: \<open>process.platform\<close>, \<open>process.arch\<close>,
  \<open>process.argv\<close>, \<open>require.resolve\<close> (\<open>None\<close> when it throws), \<open>path.dirname\<close>,
  \<open>path.join\<close>, and the first event the spawned child delivers (\<open>error\<close> with a message, or
  \<open>exit\<close> with a code that is \<open>null\<close> when a signal ended the child).

  The table and the package name are pasted between single quotes. The text is the
  program described here only when what is pasted holds no quote, backslash or line
  break; \<open>launch\<close> answers \<open>None\<close> otherwise. The keys of \<open>PLATFORMS\<close> are the five fixed
  platform keys, so a lookup finds an own property or nothing: the looked-up key holds a
  \<open>-\<close>, which no property inherited from \<open>Object.prototype\<close> does, and \<open>Object.keys\<close>
  lists the keys in the order written.
\<close>

datatype stdio = Pipe | Inherit | Ignore

record spawn_request =
  sp_file :: string
  sp_args :: "string list"
  sp_stdio :: stdio
  sp_windowsHide :: bool

datatype child_event = ChildError string | ChildExit "int option"

record host =
  h_platform :: string
  h_arch :: string
  h_argv :: "string list"
  h_resolve :: "string \<Rightarrow> string option"
  h_dirname :: "string \<Rightarrow> string"
  h_join :: "string \<Rightarrow> string \<Rightarrow> string"
  h_child :: "spawn_request \<Rightarrow> child_event"

record launcher_run =
  lr_stderr :: "string list"
  lr_spawned :: "spawn_request option"
  lr_exit :: int

definition literal_safe :: "string \<Rightarrow> bool" where
  "literal_safe s =
     list_all (\<lambda>c. c \<noteq> CHR 0x27 \<and> c \<noteq> CHR 0x5C \<and> c \<noteq> CHR 0x0A \<and> c \<noteq> CHR 0x0D) s"

definition launcher_wellformed :: "launcher \<Rightarrow> bool" where
  "launcher_wellformed l =
     (literal_safe (l_base_name l) \<and> list_all (\<lambda>(k, name). literal_safe name) (l_platforms l))"

definition unsupported_platform :: "launcher \<Rightarrow> string \<Rightarrow> launcher_run" where
  "unsupported_platform l platformKey =
     \<lparr>lr_stderr =
        [''Unsupported platform: '' @ platformKey,
         ''Supported platforms: '' @ py_join '', '' (map fst (l_platforms l))],
      lr_spawned = None,
      lr_exit = 1\<rparr>"

definition binary_not_found :: "launcher \<Rightarrow> string \<Rightarrow> string \<Rightarrow> launcher_run" where
  "binary_not_found l platformKey packageName =
     \<lparr>lr_stderr =
        [''Failed to find binary for '' @ platformKey,
         ''Make sure '' @ packageName @ '' is installed'',
         [],
         ''Try one of the following:'',
         ''  1. Uninstall and reinstall with npm:'',
         ''     npm uninstall -g '' @ l_base_name l,
         ''     npm install -g '' @ l_base_name l,
         ''  2. Or uninstall and reinstall with pnpm:'',
         ''     pnpm uninstall -g '' @ l_base_name l,
         ''     pnpm install -g '' @ l_base_name l],
      lr_spawned = None,
      lr_exit = 1\<rparr>"

definition run_binary :: "host \<Rightarrow> string \<Rightarrow> launcher_run" where
  "run_binary h binPath =
     (let request =
            \<lparr>sp_file = binPath, sp_args = drop 2 (h_argv h), sp_stdio = Inherit,
             sp_windowsHide = False\<rparr>
      in case h_child h request of
           ChildError message \<Rightarrow>
             \<lparr>lr_stderr = [''Failed to start binary: '' @ message],
              lr_spawned = Some request,
              lr_exit = 1\<rparr>
         | ChildExit code \<Rightarrow>
             \<lparr>lr_stderr = [],
              lr_spawned = Some request,
              lr_exit = (case code of None \<Rightarrow> 0 | Some c \<Rightarrow> if c \<noteq> 0 then c else 0)\<rparr>)"

definition launch :: "launcher \<Rightarrow> host \<Rightarrow> launcher_run option" where
  "launch l h =
     (if \<not> launcher_wellformed l then None
      else
        (let platform = h_platform h;
             arch = h_arch h;
             platformKey = platform @ ''-'' @ arch
         in case map_of (l_platforms l) platformKey of
              None \<Rightarrow> Some (unsupported_platform l platformKey)
            | Some packageName \<Rightarrow>
                if packageName = [] then Some (unsupported_platform l platformKey)
                else
                  (case h_resolve h (packageName @ ''/package.json'') of
                     None \<Rightarrow> Some (binary_not_found l platformKey packageName)
                   | Some packagePath \<Rightarrow>
                       (let packageDir = h_dirname h packagePath;
                            binName =
                              (if platform = ''win32'' then ''codekanban.exe'' else ''codekanban'');
                            binPath = h_join h packageDir binName
                        in Some (run_binary h binPath)))))"

section \<open>\<^verbatim>\<open>publish-all-packages.py\<close>\<close>

datatype json_file = Missing | Unparsable | NotAnObject | Object

record pworld =
  pw_is_windows :: bool
  pw_npm_packages_exists :: bool
  pw_main_package_json :: json_file
  pw_platform_dir_exists :: "string \<Rightarrow> bool"
  pw_platform_package_json :: "string \<Rightarrow> json_file"
  pw_subprocess :: "invocation \<Rightarrow> path \<Rightarrow> int"

definition publish_run_command ::
  "pworld \<Rightarrow> string list \<Rightarrow> path \<Rightarrow> bool \<Rightarrow> pystate \<Rightarrow> outcome \<times> pystate" where
  "publish_run_command w cmd cwd shell st =
     (if pw_is_windows w then
        (let cmd_str = py_join '' '' cmd; rc = pw_subprocess w (Shell cmd_str) cwd
         in (Returned rc, perform (Run (Shell cmd_str) cwd None rc) st))
      else if shell then
        (case cmd of
           [] \<Rightarrow> (Raised IndexError, st)
         | c # _ \<Rightarrow>
             (let rc = pw_subprocess w (Shell c) cwd
              in (Returned rc, perform (Run (Shell c) cwd None rc) st)))
      else
        (let rc = pw_subprocess w (Exec cmd) cwd
         in (Returned rc, perform (Run (Exec cmd) cwd None rc) st)))"

definition getenv :: "pystate \<Rightarrow> string \<Rightarrow> string option" where
  "getenv st name = heap st os_environ name"

definition is_github_actions :: "pystate \<Rightarrow> bool" where
  "is_github_actions st = (getenv st ''GITHUB_ACTIONS'' = Some ''true'')"

definition truthy :: "string option \<Rightarrow> bool" where
  "truthy v = (case v of None \<Rightarrow> False | Some s \<Rightarrow> s \<noteq> [])"

definition publish_platform_list :: "string list" where
  "publish_platform_list =
     [''win32-x64'', ''darwin-x64'', ''darwin-arm64'', ''linux-x64'', ''linux-arm64'']"

text \<open>
  The loop over the platform packages. Reading a manifest that is there can raise: it
  may not parse, and \<open>.get\<close> is an attribute only of a JSON object. The names read are
  only printed.
\<close>

fun publish_platforms ::
  "pworld \<Rightarrow> string list \<Rightarrow> string list \<Rightarrow> pystate \<Rightarrow> outcome \<times> pystate" where
  "publish_platforms w publish_cmd [] st = (Returned 0, st)"
| "publish_platforms w publish_cmd (platform # platforms) st =
     (if \<not> pw_platform_dir_exists w platform then publish_platforms w publish_cmd platforms st
      else if pw_platform_package_json w platform = Unparsable then (Raised JSONDecodeError, st)
      else if pw_platform_package_json w platform = NotAnObject then (Raised AttributeError, st)
      else
        (case publish_run_command w publish_cmd (npm_packages_dir @ [platform]) False st of
           (Returned ret, st') \<Rightarrow>
             if ret \<noteq> 0 then (Returned ret, st')
             else publish_platforms w publish_cmd platforms st'
         | (other, st') \<Rightarrow> (other, st')))"

definition publish_main :: "pworld \<Rightarrow> pystate \<Rightarrow> outcome \<times> pystate" where
  "publish_main w st =
     (if \<not> pw_npm_packages_exists w then (Returned 1, st)
      else if pw_main_package_json w = Missing then (Returned 1, st)
      else if pw_main_package_json w = Unparsable then (Raised JSONDecodeError, st)
      else if pw_main_package_json w = NotAnObject then (Raised AttributeError, st)
      else
        (case publish_run_command w [''npm'', ''whoami''] root_dir False st of
           (Returned auth_result, st1) \<Rightarrow>
             if auth_result \<noteq> 0 \<and> is_github_actions st1
                \<and> \<not> truthy (getenv st1 ''NODE_AUTH_TOKEN'')
             then (Returned 1, st1)
             else
               (let publish_cmd =
                      [''npm'', ''publish'', ''--access'', ''public'']
                      @ (if is_github_actions st1 then [''--provenance''] else [])
                in case publish_platforms w publish_cmd publish_platform_list st1 of
                     (Returned ret, st2) \<Rightarrow>
                       if ret \<noteq> 0 then (Returned ret, st2)
                       else
                         (case publish_run_command w publish_cmd root_dir False st2 of
                            (Returned ret, st3) \<Rightarrow>
                              if ret \<noteq> 0 then (Returned ret, st3) else (Returned 0, st3)
                          | (other, st3) \<Rightarrow> (other, st3))
                   | (other, st2) \<Rightarrow> (other, st2))
         | (other, st1) \<Rightarrow> (other, st1)))"

section \<open>Example inputs\<close>

text \<open>
  A Linux machine on which the platform package is installed below
  \<^verbatim>\<open>/usr/lib/node_modules\<close>, and on which the binary exits with status 3.
\<close>

definition example_host :: host where
  "example_host =
     \<lparr>h_platform = ''linux'',
      h_arch = ''x64'',
      h_argv = [''/usr/bin/node'', ''/usr/bin/codekanban'', ''--port'', ''3007''],
      h_resolve =
        (\<lambda>request. if request = ''@codekanban/linux-x64/package.json''
                    then Some ''/usr/lib/node_modules/@codekanban/linux-x64/package.json''
                    else None),
      h_dirname = (\<lambda>p. rev (tl (dropWhile (\<lambda>c. c \<noteq> CHR ''/'') (rev p)))),
      h_join = (\<lambda>d f. d @ ''/'' @ f),
      h_child = (\<lambda>request. ChildExit (Some 3))\<rparr>"

definition codekanban_mapping :: "(string \<times> string) list" where
  "codekanban_mapping =
     [(''win32-x64'', ''@codekanban/win32-x64''),
      (''darwin-x64'', ''@codekanban/darwin-x64''),
      (''darwin-arm64'', ''@codekanban/darwin-arm64''),
      (''linux-x64'', ''@codekanban/linux-x64''),
      (''linux-arm64'', ''@codekanban/linux-arm64'')]"

text \<open>
  The environment of a GitHub Actions job without and with a registry token, and two
  answers of the operating system: every command succeeds, or only the identity check
  \<^verbatim>\<open>npm whoami\<close> fails.
\<close>

definition github_actions_env :: env where
  "github_actions_env = [''GITHUB_ACTIONS'' \<mapsto> ''true'']"

definition github_actions_token_env :: env where
  "github_actions_token_env = [''GITHUB_ACTIONS'' \<mapsto> ''true'', ''NODE_AUTH_TOKEN'' \<mapsto> ''npm_secret'']"

definition all_succeed :: "invocation \<Rightarrow> path \<Rightarrow> int" where
  "all_succeed i cwd = 0"

definition whoami_fails :: "invocation \<Rightarrow> path \<Rightarrow> int" where
  "whoami_fails i cwd = (if i = Exec [''npm'', ''whoami''] then 1 else 0)"

text \<open>
  A build machine: the frontend and its output are there, an old \<^verbatim>\<open>npm-packages\<close> is
  not, \<open>static\<close> holds its \<^verbatim>\<open>README.md\<close> and one old file. The commands return what \<open>rc\<close>
  says; in \<open>darwin_fails\<close> the toolchain fails on the Darwin targets and everything else
  succeeds.
\<close>

definition example_env :: env where
  "example_env = [''PATH'' \<mapsto> ''/usr/bin'']"

definition example_world :: "(invocation \<Rightarrow> path \<Rightarrow> env option \<Rightarrow> int) \<Rightarrow> world" where
  "example_world rc =
     \<lparr>is_windows = False,
      path_str = py_join ''/'',
      npm_packages_exists = False,
      ui_exists = True,
      static_listing = Some [(''README.md'', File), (''index.html'', File)],
      dist_listing = Some [(''index.html'', File), (''assets'', Dir)],
      dest_exists = (\<lambda>name. False),
      subprocess = rc,
      output_size = (\<lambda>p. Some 1024)\<rparr>"

definition darwin_fails :: "invocation \<Rightarrow> path \<Rightarrow> env option \<Rightarrow> int" where
  "darwin_fails i cwd e =
     (case e of
        None \<Rightarrow> 0
      | Some vars \<Rightarrow> if vars ''GOOS'' = Some ''darwin'' then 2 else 0)"

definition nothing_fails :: "invocation \<Rightarrow> path \<Rightarrow> env option \<Rightarrow> int" where
  "nothing_fails i cwd e = 0"

definition example_args :: args where
  "example_args =
     \<lparr>a_version = ''1.2.3'',
      a_package_name = ''codekanban'',
      a_version_main = ''1.2.3'',
      a_version_prerelease = [],
      a_version_build_metadata = [],
      a_app_channel = ''stable''\<rparr>"

text \<open>
  A publish world in which every directory and manifest is there; the commands return
  what \<open>rc\<close> says.
\<close>

definition example_pworld :: "(invocation \<Rightarrow> path \<Rightarrow> int) \<Rightarrow> pworld" where
  "example_pworld rc =
     \<lparr>pw_is_windows = False,
      pw_npm_packages_exists = True,
      pw_main_package_json = Object,
      pw_platform_dir_exists = (\<lambda>platform. True),
      pw_platform_package_json = (\<lambda>platform. Object),
      pw_subprocess = rc\<rparr>"

section \<open>Vocabulary of the claims\<close>



text \<open>
  For C9: how \<open>run_command\<close> of the publish script hands a command to the operating
  system (one shell string on Windows), which effects are publish commands, and which
  of them carry \<^verbatim>\<open>--provenance\<close>.
\<close>

definition publish_invocation :: "pworld \<Rightarrow> string list \<Rightarrow> invocation" where
  "publish_invocation w cmd = (if pw_is_windows w then Shell (py_join '' '' cmd) else Exec cmd)"

definition is_publish :: "action \<Rightarrow> bool" where
  "is_publish a =
     (case a of
        Run (Exec cmd) cwd e rc \<Rightarrow> take 2 cmd = [''npm'', ''publish'']
      | Run (Shell s) cwd e rc \<Rightarrow> prefix ''npm publish'' s
      | _ \<Rightarrow> False)"

definition has_provenance :: "action \<Rightarrow> bool" where
  "has_provenance a =
     (case a of
        Run (Exec cmd) cwd e rc \<Rightarrow> ''--provenance'' \<in> set cmd
      | Run (Shell s) cwd e rc \<Rightarrow> suffix '' --provenance'' s
      | _ \<Rightarrow> False)"

text \<open>The effects a run adds to those of the state it started in.\<close>

definition new_effects :: "pystate \<Rightarrow> pystate \<Rightarrow> action list" where
  "new_effects st st' = drop (length (effects st)) (effects st')"

text \<open>
  For C3 and C10: the toolchain invocation of one target of the build matrix, given the
  flags, the content of \<open>os.environ\<close> and the code the toolchain returns; a toolchain
  invocation that failed; and the effects that make a package (marker, manifests,
  launcher).
\<close>

definition toolchain_run ::
  "world \<Rightarrow> string \<Rightarrow> env \<Rightarrow> string \<times> string \<times> string \<times> string \<Rightarrow> int \<Rightarrow> action" where
  "toolchain_run w ldflags ambient target rc =
     (case target of (goos, goarch, npm_os, npm_arch) \<Rightarrow>
        Run (Exec (build_cmd_of w ldflags
                     (npm_packages_dir @ [platform_key npm_os npm_arch, output_name_of goos])))
          root_dir
          (Some (ambient(''GOOS'' \<mapsto> goos, ''GOARCH'' \<mapsto> goarch, ''CGO_ENABLED'' \<mapsto> ''0'')))
          rc)"

definition failed_toolchain_run :: "action \<Rightarrow> bool" where
  "failed_toolchain_run a =
     (case a of
        Run (Exec cmd) cwd e rc \<Rightarrow> take 2 cmd = [''go'', ''build''] \<and> rc \<noteq> 0
      | _ \<Rightarrow> False)"

definition is_package_write :: "action \<Rightarrow> bool" where
  "is_package_write a =
     (case a of
        Touch p \<Rightarrow> True
      | WritePlatformJson p m \<Rightarrow> True
      | WriteMainJson p m \<Rightarrow> True
      | WriteLauncher p l \<Rightarrow> True
      | _ \<Rightarrow> False)"


text \<open>An effect that is neither a failed toolchain run nor the making of a package.\<close>

definition harmless :: "action \<Rightarrow> bool" where
  "harmless a = (\<not> failed_toolchain_run a \<and> \<not> is_package_write a)"

text \<open>
  The command that builds the frontend, and the states of the pipeline before and after
  it and after the copy into \<open>static\<close>.
\<close>

definition pnpm_invocation :: "world \<Rightarrow> invocation" where
  "pnpm_invocation w = (if is_windows w then Shell ''pnpm build'' else Exec [''pnpm'', ''build''])"

definition before_frontend :: "world \<Rightarrow> pystate \<Rightarrow> pystate" where
  "before_frontend w st =
     perform (Mkdir npm_packages_dir)
       (if npm_packages_exists w then perform (Rmtree npm_packages_dir) st else st)"

definition after_frontend :: "world \<Rightarrow> pystate \<Rightarrow> pystate" where
  "after_frontend w st =
     perform (Run (pnpm_invocation w) ui_dir None (subprocess w (pnpm_invocation w) ui_dir None))
       (before_frontend w st)"

definition after_copy :: "world \<Rightarrow> pystate \<Rightarrow> pystate" where
  "after_copy w st = snd (copy_dist_to_static w (clean_static_dir w (after_frontend w st)))"

section \<open>Properties of \<open>str.format\<close> on the name templates\<close>

lemma emit_Nil: "emit [] r = r"
  by (cases r) (simp_all add: emit_def)

lemma emit_append: "emit (u @ v) r = emit u (emit v r)"
  by (cases r) (simp_all add: emit_def)

lemma emit_Ok_iff: "emit v r = Ok s \<longleftrightarrow> (\<exists>s'. r = Ok s' \<and> s = v @ s')"
  by (cases r) (auto simp add: emit_def)

lemma emit_suffix:
  "emit v r = Ok s \<Longrightarrow> (\<And>s'. r = Ok s' \<Longrightarrow> suffix x s') \<Longrightarrow> suffix x s"
  by (auto simp add: emit_Ok_iff intro: suffix_appendI)

text \<open>Text without braces is copied as it stands.\<close>

lemma render_plain:
  "CHR ''{'' \<notin> set s \<Longrightarrow> CHR ''}'' \<notin> set s \<Longrightarrow> render (s @ t) p = emit s (render t p)"
proof (induction s)
  case Nil
  then show ?case by (simp add: emit_Nil)
next
  case (Cons c s)
  then have c: "c \<noteq> CHR ''{''" "c \<noteq> CHR ''}''" by auto
  then have "render ((c # s) @ t) p = emit [c] (render (s @ t) p)" by simp
  also have "\<dots> = emit [c] (emit s (render t p))" using Cons by simp
  also have "\<dots> = emit (c # s) (render t p)" using emit_append [of "[c]" s] by simp
  finally show ?case .
qed

lemma render_tail:
  "sep = CHR ''-'' \<or> sep = CHR ''/'' \<Longrightarrow> render (sep # ''{platform}'') p = Ok (sep # p)"
  by (auto simp add: emit_def get_field_def)

lemma render_field_tail:
  "sep = CHR ''-'' \<or> sep = CHR ''/'' \<Longrightarrow> render_field f (sep # ''{platform}'') p = Raise ValueError"
  by auto

text \<open>
  Whatever stands in front of the last field, a template that ends in \<open>-{platform}\<close> or
  \<open>/{platform}\<close> formats, if it formats at all, to a text that ends in the separator and
  the key. The induction is on the length of the text in front, because an escaped brace
  consumes two characters.
\<close>

lemma render_suffix:
  assumes sep: "sep = CHR ''-'' \<or> sep = CHR ''/''"
  shows "(render (t @ sep # ''{platform}'') p = Ok s \<longrightarrow> suffix (sep # p) s)
       \<and> (render_field f (t @ sep # ''{platform}'') p = Ok s \<longrightarrow> suffix (sep # p) s)"
proof (induction "length t" arbitrary: t f s rule: less_induct)
  case less
  let ?tl = "sep # ''{platform}''"
  show ?case
  proof (cases t)
    case Nil
    then show ?thesis
      using render_tail [OF sep, of p] render_field_tail [OF sep, of f p] by simp
  next
    case (Cons c cs)
    have IHr: "\<And>s. render (cs @ ?tl) p = Ok s \<Longrightarrow> suffix (sep # p) s"
      using less [of cs] Cons by simp
    have IHf: "\<And>f s. render_field f (cs @ ?tl) p = Ok s \<Longrightarrow> suffix (sep # p) s"
      using less [of cs] Cons by simp
    have field: "render_field f (t @ ?tl) p = Ok s \<longrightarrow> suffix (sep # p) s"
    proof
      assume a: "render_field f (t @ ?tl) p = Ok s"
      show "suffix (sep # p) s"
      proof (cases "c = CHR ''}''")
        case True
        with a Cons obtain v where "emit v (render (cs @ ?tl) p) = Ok s"
          by (auto split: result.splits)
        then show ?thesis using IHr by (rule emit_suffix)
      next
        case False
        with a Cons have "render_field (f @ [c]) (cs @ ?tl) p = Ok s"
          by (auto split: if_splits)
        then show ?thesis by (rule IHf)
      qed
    qed
    have lit: "render (t @ ?tl) p = Ok s \<longrightarrow> suffix (sep # p) s"
    proof
      assume a: "render (t @ ?tl) p = Ok s"
      show "suffix (sep # p) s"
      proof (cases "c = CHR ''{'' \<or> c = CHR ''}''")
        case False
        with a Cons have "emit [c] (render (cs @ ?tl) p) = Ok s" by simp
        then show ?thesis using IHr by (rule emit_suffix)
      next
        case True
        show ?thesis
        proof (cases cs)
          case Nil
          with True a Cons sep show ?thesis by auto
        next
          case (Cons d ds)
          have IHr2: "\<And>s. render (ds @ ?tl) p = Ok s \<Longrightarrow> suffix (sep # p) s"
            using less [of ds] Cons \<open>t = c # cs\<close> by simp
          from True a Cons \<open>t = c # cs\<close>
          have "emit [c] (render (ds @ ?tl) p) = Ok s \<or> render_field [] (cs @ ?tl) p = Ok s"
            by (auto split: if_splits)
          then show ?thesis
          proof
            assume "emit [c] (render (ds @ ?tl) p) = Ok s"
            then show ?thesis using IHr2 by (rule emit_suffix)
          next
            assume "render_field [] (cs @ ?tl) p = Ok s"
            then show ?thesis by (rule IHf)
          qed
        qed
      qed
    qed
    from lit field show ?thesis by simp
  qed
qed

text \<open>The formatted text is made of characters of the template and of the key.\<close>

lemma render_chars:
  "(render t p = Ok s \<longrightarrow> set s \<subseteq> set t \<union> set p)
 \<and> (render_field f t p = Ok s \<longrightarrow> set s \<subseteq> set t \<union> set p)"
proof (induction "length t" arbitrary: t f s rule: less_induct)
  case less
  show ?case
  proof (cases t)
    case Nil
    then show ?thesis by simp
  next
    case (Cons c cs)
    have IHr: "\<And>s. render cs p = Ok s \<Longrightarrow> set s \<subseteq> set cs \<union> set p"
      using less [of cs] Cons by simp
    have IHf: "\<And>f s. render_field f cs p = Ok s \<Longrightarrow> set s \<subseteq> set cs \<union> set p"
      using less [of cs] Cons by simp
    have field: "render_field f t p = Ok s \<longrightarrow> set s \<subseteq> set t \<union> set p"
    proof
      assume a: "render_field f t p = Ok s"
      show "set s \<subseteq> set t \<union> set p"
      proof (cases "c = CHR ''}''")
        case True
        with a Cons obtain v where v: "get_field f p = Ok v" "emit v (render cs p) = Ok s"
          by (auto split: result.splits)
        from v(1) have "v = p" by (auto simp add: get_field_def split: if_splits)
        with v(2) IHr Cons show ?thesis by (auto simp add: emit_Ok_iff)
      next
        case False
        with a Cons have "render_field (f @ [c]) cs p = Ok s"
          by (auto split: if_splits)
        from IHf [OF this] Cons show ?thesis by auto
      qed
    qed
    have lit: "render t p = Ok s \<longrightarrow> set s \<subseteq> set t \<union> set p"
    proof
      assume a: "render t p = Ok s"
      show "set s \<subseteq> set t \<union> set p"
      proof (cases "c = CHR ''{'' \<or> c = CHR ''}''")
        case False
        with a Cons have "emit [c] (render cs p) = Ok s" by simp
        with IHr Cons show ?thesis by (auto simp add: emit_Ok_iff)
      next
        case True
        show ?thesis
        proof (cases cs)
          case Nil
          with True a Cons show ?thesis by auto
        next
          case (Cons d ds)
          have IHr2: "\<And>s. render ds p = Ok s \<Longrightarrow> set s \<subseteq> set ds \<union> set p"
            using less [of ds] Cons \<open>t = c # cs\<close> by simp
          from True a Cons \<open>t = c # cs\<close>
          have "emit [c] (render ds p) = Ok s \<or> render_field [] cs p = Ok s"
            by (auto split: if_splits)
          then show ?thesis
          proof
            assume "emit [c] (render ds p) = Ok s"
            with IHr2 Cons \<open>t = c # cs\<close> show ?thesis by (auto simp add: emit_Ok_iff)
          next
            assume "render_field [] cs p = Ok s"
            from IHf [OF this] \<open>t = c # cs\<close> show ?thesis by auto
          qed
        qed
      qed
    qed
    from lit field show ?thesis by simp
  qed
qed

text \<open>On a package name without braces the template does what its comment says.\<close>

lemma platform_name_no_braces:
  assumes "CHR ''{'' \<notin> set base_name" and "CHR ''}'' \<notin> set base_name"
  shows "platform_name base_name key =
           Ok (if startswith base_name ''@'' then base_name @ ''-'' @ key
               else ''@'' @ base_name @ ''/'' @ key)"
proof (cases "startswith base_name ''@''")
  case True
  have "render (base_name @ CHR ''-'' # ''{platform}'') key = emit base_name (Ok (CHR ''-'' # key))"
    using render_plain [OF assms] render_tail [of "CHR ''-''" key] by simp
  with True show ?thesis
    by (simp add: platform_name_def platform_name_template_def py_format_def emit_def)
next
  case False
  have "render ((CHR ''@'' # base_name) @ CHR ''/'' # ''{platform}'') key
          = emit (CHR ''@'' # base_name) (Ok (CHR ''/'' # key))"
    using render_plain [of "CHR ''@'' # base_name"] assms render_tail [of "CHR ''/''" key]
    by simp
  with False show ?thesis
    by (simp add: platform_name_def platform_name_template_def py_format_def emit_def)
qed

lemma format_all_length: "format_all t ps = Ok names \<Longrightarrow> length names = length ps"
  by (induction ps arbitrary: names) (auto split: result.splits)

lemma format_all_nth:
  "format_all t ps = Ok names \<Longrightarrow> i < length ps \<Longrightarrow> py_format t (ps ! i) = Ok (names ! i)"
proof (induction ps arbitrary: names i)
  case Nil
  then show ?case by simp
next
  case (Cons p ps)
  then show ?case by (cases i) (auto split: result.splits)
qed

lemma platforms_mapping_keys:
  "platforms_mapping t = Ok mapping \<Longrightarrow> map fst mapping = main_platforms"
  by (auto simp add: platforms_mapping_def split: result.splits dest: format_all_length)

section \<open>Dictionaries and the distinctness of the platform package names\<close>

lemma dict_setitem_fresh: "k \<notin> fst ` set d \<Longrightarrow> dict_setitem k v d = d @ [(k, v)]"
  by (induction d) auto

lemma dict_of_distinct: "distinct (map fst (d @ kvs)) \<Longrightarrow> dict_of kvs d = d @ kvs"
proof (induction kvs arbitrary: d)
  case Nil
  then show ?case by simp
next
  case (Cons kv kvs)
  obtain k v where kv: "kv = (k, v)" by (cases kv)
  from Cons.prems kv have fresh: "k \<notin> fst ` set d" by auto
  from Cons.prems kv have "distinct (map fst ((d @ [(k, v)]) @ kvs))" by auto
  from Cons.IH [OF this] fresh kv show ?case by (simp add: dict_setitem_fresh)
qed

lemma suffix_key_cases:
  assumes "sep = CHR ''-'' \<or> sep = CHR ''/''"
    and "p \<in> set main_platforms" and "q \<in> set main_platforms"
    and "suffix (sep # p) (sep # q)"
  shows "p = q"
proof -
  from assms(4) have "prefix (rev p @ [sep]) (rev q @ [sep])"
    by (simp add: suffix_to_prefix)
  moreover from assms(2) have "p = ''win32-x64'' \<or> p = ''darwin-x64'' \<or> p = ''darwin-arm64''
      \<or> p = ''linux-x64'' \<or> p = ''linux-arm64''"
    by (simp add: main_platforms_def)
  moreover from assms(3) have "q = ''win32-x64'' \<or> q = ''darwin-x64'' \<or> q = ''darwin-arm64''
      \<or> q = ''linux-x64'' \<or> q = ''linux-arm64''"
    by (simp add: main_platforms_def)
  ultimately show ?thesis using assms(1)
    by (elim disjE) simp_all
qed

lemma key_suffix_unique:
  assumes "sep = CHR ''-'' \<or> sep = CHR ''/''"
    and "p \<in> set main_platforms" and "q \<in> set main_platforms"
    and "suffix (sep # p) s" and "suffix (sep # q) s"
  shows "p = q"
proof -
  from assms(4,5) have "suffix (sep # p) (sep # q) \<or> suffix (sep # q) (sep # p)"
    by (rule suffix_same_cases)
  then show ?thesis
  proof
    assume "suffix (sep # p) (sep # q)"
    with assms(1,2,3) show ?thesis by (rule suffix_key_cases)
  next
    assume "suffix (sep # q) (sep # p)"
    with assms(1,3,2) have "q = p" by (rule suffix_key_cases)
    then show ?thesis by simp
  qed
qed

lemma template_shape:
  "\<exists>t sep. platform_name_template base_name = t @ sep # ''{platform}''
     \<and> (sep = CHR ''-'' \<or> sep = CHR ''/'')"
proof (cases "startswith base_name ''@''")
  case True
  then have "platform_name_template base_name = base_name @ CHR ''-'' # ''{platform}''"
    by (simp add: platform_name_template_def)
  then show ?thesis by blast
next
  case False
  then have "platform_name_template base_name = (CHR ''@'' # base_name) @ CHR ''/'' # ''{platform}''"
    by (simp add: platform_name_template_def)
  then show ?thesis by blast
qed

lemma platform_names_distinct:
  assumes "format_all (platform_name_template base_name) main_platforms = Ok names"
  shows "distinct names"
proof -
  obtain t sep where t: "platform_name_template base_name = t @ sep # ''{platform}''"
    and sep: "sep = CHR ''-'' \<or> sep = CHR ''/''"
    using template_shape by blast
  have len: "length names = length main_platforms"
    using assms by (rule format_all_length)
  have suf: "suffix (sep # main_platforms ! i) (names ! i)" if "i < length main_platforms" for i
  proof -
    from format_all_nth [OF assms that]
    have "render (t @ sep # ''{platform}'') (main_platforms ! i) = Ok (names ! i)"
      by (simp add: py_format_def t)
    with render_suffix [OF sep, of t "main_platforms ! i" "names ! i" "[]"] show ?thesis by simp
  qed
  have dk: "distinct main_platforms" by (simp add: main_platforms_def)
  show ?thesis
  proof (rule iffD2 [OF distinct_conv_nth], intro allI impI)
    fix i j
    assume i: "i < length names" and j: "j < length names" and ne: "i \<noteq> j"
    show "names ! i \<noteq> names ! j"
    proof
      assume eq: "names ! i = names ! j"
      from i j len have i': "i < length main_platforms" and j': "j < length main_platforms"
        by simp_all
      from suf [OF i'] suf [OF j'] eq
      have "main_platforms ! i = main_platforms ! j"
        using key_suffix_unique [OF sep, of "main_platforms ! i" "main_platforms ! j" "names ! j"]
          i' j' by simp
      with dk i' j' ne show False by (simp add: nth_eq_iff_index_eq)
    qed
  qed
qed

lemma optional_deps_of_Ok:
  assumes "format_all (platform_name_template base_name) main_platforms = Ok names"
  shows "optional_deps_of (platform_name_template base_name) version
           = Ok (map (\<lambda>name. (name, version)) names)"
proof -
  have "distinct (map fst ([] @ map (\<lambda>name. (name, version)) names))"
    using platform_names_distinct [OF assms] by (simp add: comp_def)
  from dict_of_distinct [OF this] assms show ?thesis
    by (simp add: optional_deps_of_def)
qed

section \<open>The launcher that is generated\<close>

lemma literal_safe_iff:
  "literal_safe s \<longleftrightarrow> CHR 0x27 \<notin> set s \<and> CHR 0x5C \<notin> set s \<and> CHR 0x0A \<notin> set s \<and> CHR 0x0D \<notin> set s"
  by (auto simp add: literal_safe_def list_all_iff)

lemma literal_safe_subset: "set s \<subseteq> set t \<union> set p \<Longrightarrow> literal_safe t \<Longrightarrow> literal_safe p \<Longrightarrow> literal_safe s"
  by (auto simp add: literal_safe_iff)

lemma literal_safe_template: "literal_safe base_name \<Longrightarrow> literal_safe (platform_name_template base_name)"
  by (auto simp add: literal_safe_iff platform_name_template_def)

lemma literal_safe_keys: "p \<in> set main_platforms \<Longrightarrow> literal_safe p"
  by (auto simp add: literal_safe_iff main_platforms_def)

lemma py_format_literal_safe:
  "py_format t p = Ok s \<Longrightarrow> literal_safe t \<Longrightarrow> literal_safe p \<Longrightarrow> literal_safe s"
  using render_chars [of t p s "[]"] by (auto simp add: py_format_def intro: literal_safe_subset)

lemma mapping_entry:
  assumes "platforms_mapping (platform_name_template base_name) = Ok mapping"
    and "(key, name) \<in> set mapping"
  shows "key \<in> set main_platforms \<and> platform_name base_name key = Ok name"
proof -
  from assms(1) obtain names where names: "format_all (platform_name_template base_name) main_platforms = Ok names"
    and m: "mapping = zip main_platforms names"
    by (auto simp add: platforms_mapping_def split: result.splits)
  from assms(2) m obtain i where i: "i < length main_platforms" "i < length names"
    "key = main_platforms ! i" "name = names ! i"
    by (auto simp add: in_set_zip)
  from format_all_nth [OF names i(1)] i show ?thesis
    by (simp add: platform_name_def)
qed

lemma platform_name_nonempty: "platform_name base_name key = Ok name \<Longrightarrow> name \<noteq> []"
proof -
  assume a: "platform_name base_name key = Ok name"
  obtain t sep where t: "platform_name_template base_name = t @ sep # ''{platform}''"
    and sep: "sep = CHR ''-'' \<or> sep = CHR ''/''"
    using template_shape by blast
  from a t have "render (t @ sep # ''{platform}'') key = Ok name"
    by (simp add: platform_name_def py_format_def)
  with render_suffix [OF sep, of t key name "[]"] have "suffix (sep # key) name" by simp
  then show ?thesis by (auto simp add: suffix_def)
qed

lemma generated_launcher_wellformed:
  assumes "platforms_mapping (platform_name_template base_name) = Ok mapping"
    and "literal_safe base_name"
  shows "launcher_wellformed \<lparr>l_platforms = mapping, l_base_name = base_name\<rparr>"
proof -
  have "literal_safe name" if "(key, name) \<in> set mapping" for key name
  proof -
    from mapping_entry [OF assms(1) that]
    have k: "key \<in> set main_platforms" and n: "py_format (platform_name_template base_name) key = Ok name"
      by (simp_all add: platform_name_def)
    from n literal_safe_template [OF assms(2)] literal_safe_keys [OF k] show ?thesis
      by (rule py_format_literal_safe)
  qed
  with assms(2) show ?thesis
    by (auto simp add: launcher_wellformed_def list_all_iff)
qed

lemma supported_platforms_line:
  "py_join '', '' main_platforms = ''win32-x64, darwin-x64, darwin-arm64, linux-x64, linux-arm64''"
  by (simp add: main_platforms_def)

lemma codekanban_mapping_generated:
  "platforms_mapping (platform_name_template ''codekanban'') = Ok codekanban_mapping"
  by (simp add: platforms_mapping_def platform_name_template_def startswith_def py_format_def
      main_platforms_def emit_def get_field_def codekanban_mapping_def)

lemma codekanban_literal_safe: "literal_safe ''codekanban''"
  by (simp add: literal_safe_def)

section \<open>The effects of the publish script\<close>

lemma publish_run_command_eq:
  "publish_run_command w cmd cwd False st
     = (Returned (pw_subprocess w (publish_invocation w cmd) cwd),
        perform (Run (publish_invocation w cmd) cwd None
                   (pw_subprocess w (publish_invocation w cmd) cwd)) st)"
  by (simp add: publish_run_command_def publish_invocation_def Let_def)

lemma perform_effects: "effects (perform a st) = effects st @ [a]"
  by (simp add: perform_def)

lemma perform_heap: "heap (perform a st) = heap st"
  by (simp add: perform_def)

lemma publish_platforms_effects:
  "\<exists>new. effects (snd (publish_platforms w cmd ps st)) = effects st @ new
       \<and> (\<forall>a \<in> set new. \<exists>cwd rc. a = Run (publish_invocation w cmd) cwd None rc)"
proof (induction ps arbitrary: st)
  case Nil
  then show ?case by simp
next
  case (Cons p ps)
  let ?st1 = "perform (Run (publish_invocation w cmd) (npm_packages_dir @ [p]) None
                (pw_subprocess w (publish_invocation w cmd) (npm_packages_dir @ [p]))) st"
  from Cons [of st] obtain n0 where n0: "effects (snd (publish_platforms w cmd ps st)) = effects st @ n0"
    "\<forall>a \<in> set n0. \<exists>cwd rc. a = Run (publish_invocation w cmd) cwd None rc" by blast
  from Cons [of ?st1] obtain n1 where n1: "effects (snd (publish_platforms w cmd ps ?st1)) = effects ?st1 @ n1"
    "\<forall>a \<in> set n1. \<exists>cwd rc. a = Run (publish_invocation w cmd) cwd None rc" by blast
  show ?case
  proof (cases "pw_platform_dir_exists w p")
    case False
    with n0 show ?thesis by auto
  next
    case True
    show ?thesis
    proof (cases "pw_platform_package_json w p = Unparsable \<or> pw_platform_package_json w p = NotAnObject")
      case True
      with \<open>pw_platform_dir_exists w p\<close> show ?thesis by auto
    next
      case False
      show ?thesis
      proof (cases "pw_subprocess w (publish_invocation w cmd) (npm_packages_dir @ [p]) = 0")
        case True
        with False \<open>pw_platform_dir_exists w p\<close> n1 show ?thesis
          by (auto simp add: publish_run_command_eq perform_effects)
      next
        case nz: False
        with False \<open>pw_platform_dir_exists w p\<close> show ?thesis
          by (auto simp add: publish_run_command_eq perform_effects)
      qed
    qed
  qed
qed

lemma publish_platforms_heap: "heap (snd (publish_platforms w cmd ps st)) = heap st"
  by (induction ps arbitrary: st) (auto simp add: publish_run_command_eq perform_heap)

lemma getenv_perform: "getenv (perform a st) name = getenv st name"
  by (simp add: getenv_def perform_def)

lemma is_github_actions_perform: "is_github_actions (perform a st) = is_github_actions st"
  by (simp add: is_github_actions_def getenv_perform)

lemma whoami_not_publish:
  "\<not> is_publish (Run (publish_invocation w [''npm'', ''whoami'']) cwd e rc)"
  by (simp add: is_publish_def publish_invocation_def)

lemma provenance_publish:
  "has_provenance
     (Run (publish_invocation w [''npm'', ''publish'', ''--access'', ''public'', ''--provenance''])
        cwd e rc)"
  by (simp add: has_provenance_def publish_invocation_def suffix_to_prefix)

text \<open>What \<open>main\<close> of the publish script does after the checks of the two files.\<close>

lemma publish_main_unfold:
  assumes "pw_npm_packages_exists w" and "pw_main_package_json w = Object"
  shows "publish_main w st =
     (let auth_result = pw_subprocess w (publish_invocation w [''npm'', ''whoami'']) root_dir;
          st1 = perform (Run (publish_invocation w [''npm'', ''whoami'']) root_dir None auth_result) st
      in if auth_result \<noteq> 0 \<and> is_github_actions st \<and> \<not> truthy (getenv st ''NODE_AUTH_TOKEN'')
         then (Returned 1, st1)
         else
           (let publish_cmd =
                  [''npm'', ''publish'', ''--access'', ''public'']
                  @ (if is_github_actions st then [''--provenance''] else [])
            in case publish_platforms w publish_cmd publish_platform_list st1 of
                 (Returned ret, st2) \<Rightarrow>
                   if ret \<noteq> 0 then (Returned ret, st2)
                   else
                     (let rc = pw_subprocess w (publish_invocation w publish_cmd) root_dir
                      in (Returned rc, perform (Run (publish_invocation w publish_cmd) root_dir None rc) st2))
               | (other, st2) \<Rightarrow> (other, st2)))"
proof -
  define auth where "auth = pw_subprocess w (publish_invocation w [''npm'', ''whoami'']) root_dir"
  define st1 where "st1 = perform (Run (publish_invocation w [''npm'', ''whoami'']) root_dir None auth) st"
  define cmd where "cmd = [''npm'', ''publish'', ''--access'', ''public'']
                  @ (if is_github_actions st then [''--provenance''] else [])"
  have who: "publish_run_command w [''npm'', ''whoami''] root_dir False st = (Returned auth, st1)"
    unfolding auth_def st1_def by (rule publish_run_command_eq)
  have g1: "is_github_actions st1 = is_github_actions st"
    unfolding st1_def by (rule is_github_actions_perform)
  have e1: "getenv st1 ''NODE_AUTH_TOKEN'' = getenv st ''NODE_AUTH_TOKEN''"
    unfolding st1_def by (rule getenv_perform)
  have final: "\<And>st2. (case publish_run_command w cmd root_dir False st2 of
                 (Returned ret, st3) \<Rightarrow> if ret \<noteq> 0 then (Returned ret, st3) else (Returned 0, st3)
               | (other, st3) \<Rightarrow> (other, st3))
             = (let rc = pw_subprocess w (publish_invocation w cmd) root_dir
                in (Returned rc, perform (Run (publish_invocation w cmd) root_dir None rc) st2))"
    by (simp add: publish_run_command_eq Let_def)
  have json: "pw_main_package_json w \<noteq> Missing" "pw_main_package_json w \<noteq> Unparsable"
    "pw_main_package_json w \<noteq> NotAnObject"
    using assms(2) by simp_all
  have L: "publish_main w st =
      (if auth \<noteq> 0 \<and> is_github_actions st \<and> \<not> truthy (getenv st ''NODE_AUTH_TOKEN'')
       then (Returned 1, st1)
       else (case publish_platforms w cmd publish_platform_list st1 of
               (Returned ret, st2) \<Rightarrow>
                 if ret \<noteq> 0 then (Returned ret, st2)
                 else (case publish_run_command w cmd root_dir False st2 of
                         (Returned ret, st3) \<Rightarrow>
                           if ret \<noteq> 0 then (Returned ret, st3) else (Returned 0, st3)
                       | (other, st3) \<Rightarrow> (other, st3))
             | (other, st2) \<Rightarrow> (other, st2)))"
    unfolding publish_main_def Let_def who cmd_def
    using assms(1) json by (simp only: if_True if_False not_True_eq_False prod.case outcome.case g1 e1)
  show ?thesis
    unfolding L final
    unfolding auth_def [symmetric] st1_def [symmetric] cmd_def [symmetric] Let_def
    unfolding auth_def [symmetric] st1_def [symmetric] ..
qed

lemma publish_main_not_ready:
  assumes "\<not> (pw_npm_packages_exists w \<and> pw_main_package_json w = Object)"
  shows "snd (publish_main w st) = st
       \<and> fst (publish_main w st) \<in> {Returned 1, Raised JSONDecodeError, Raised AttributeError}"
  using assms by (cases "pw_main_package_json w") (auto simp add: publish_main_def)

lemma new_effects_append: "effects st' = effects st @ new \<Longrightarrow> new_effects st st' = new"
  by (simp add: new_effects_def)

text \<open>
  In GitHub Actions every command of a run is the identity check or a publish command
  built with \<^verbatim>\<open>--provenance\<close>.
\<close>

lemma publish_main_effects:
  assumes "is_github_actions st"
  shows "\<exists>new. effects (snd (publish_main w st)) = effects st @ new
       \<and> (\<forall>a \<in> set new.
             (\<exists>cwd rc. a = Run (publish_invocation w [''npm'', ''whoami'']) cwd None rc)
           \<or> (\<exists>cwd rc. a = Run (publish_invocation w
                   [''npm'', ''publish'', ''--access'', ''public'', ''--provenance'']) cwd None rc))"
proof (cases "pw_npm_packages_exists w \<and> pw_main_package_json w = Object")
  case False
  from publish_main_not_ready [OF this, of st] show ?thesis by simp
next
  case True
  let ?who = "Run (publish_invocation w [''npm'', ''whoami'']) root_dir None
                (pw_subprocess w (publish_invocation w [''npm'', ''whoami'']) root_dir)"
  let ?cmd = "[''npm'', ''publish'', ''--access'', ''public'', ''--provenance'']"
  let ?st1 = "perform ?who st"
  obtain o2 st2 where p: "publish_platforms w ?cmd publish_platform_list ?st1 = (o2, st2)"
    by (cases "publish_platforms w ?cmd publish_platform_list ?st1")
  from publish_platforms_effects [of w ?cmd publish_platform_list ?st1] p
  obtain n where n: "effects st2 = effects st @ ?who # n"
    "\<forall>a \<in> set n. \<exists>cwd rc. a = Run (publish_invocation w ?cmd) cwd None rc"
    by (auto simp add: perform_effects)
  from True have u: "pw_npm_packages_exists w" "pw_main_package_json w = Object" by simp_all
  show ?thesis
  proof (cases "pw_subprocess w (publish_invocation w [''npm'', ''whoami'']) root_dir \<noteq> 0
                \<and> \<not> truthy (getenv st ''NODE_AUTH_TOKEN'')")
    case True
    with assms have "effects (snd (publish_main w st)) = effects st @ [?who]"
      by (simp add: publish_main_unfold [OF u] Let_def perform_effects)
    then show ?thesis by (intro exI [of _ "[?who]"]) auto
  next
    case False
    with assms p have "effects (snd (publish_main w st)) = effects st2
      \<or> effects (snd (publish_main w st)) = effects st2 @ [Run (publish_invocation w ?cmd) root_dir None
            (pw_subprocess w (publish_invocation w ?cmd) root_dir)]"
      by (cases o2) (auto simp add: publish_main_unfold [OF u] Let_def perform_effects)
    then show ?thesis
    proof
      assume "effects (snd (publish_main w st)) = effects st2"
      with n have "effects (snd (publish_main w st)) = effects st @ (?who # n)" by simp
      moreover from n(2) have "\<forall>a \<in> set (?who # n).
             (\<exists>cwd rc. a = Run (publish_invocation w [''npm'', ''whoami'']) cwd None rc)
           \<or> (\<exists>cwd rc. a = Run (publish_invocation w ?cmd) cwd None rc)" by auto
      ultimately show ?thesis by (intro exI [of _ "?who # n"] conjI)
    next
      let ?last = "Run (publish_invocation w ?cmd) root_dir None
            (pw_subprocess w (publish_invocation w ?cmd) root_dir)"
      assume "effects (snd (publish_main w st)) = effects st2 @ [?last]"
      with n have "effects (snd (publish_main w st)) = effects st @ (?who # n @ [?last])" by simp
      moreover from n(2) have "\<forall>a \<in> set (?who # n @ [?last]).
             (\<exists>cwd rc. a = Run (publish_invocation w [''npm'', ''whoami'']) cwd None rc)
           \<or> (\<exists>cwd rc. a = Run (publish_invocation w ?cmd) cwd None rc)" by auto
      ultimately show ?thesis by (intro exI [of _ "?who # n @ [?last]"] conjI)
    qed
  qed
qed

lemmas publish_eval =
  publish_main_def publish_run_command_def publish_platform_list_def example_pworld_def
  init_state_def github_actions_env_def github_actions_token_env_def all_succeed_def
  whoami_fails_def is_github_actions_def getenv_def truthy_def os_environ_def perform_def
  root_dir_def npm_packages_dir_def Let_def

section \<open>The effects of the build pipeline\<close>

lemma build_target_eq:
  "build_target w ldflags (goos, goarch, npm_os, npm_arch) st
     = (let e = Some ((heap st os_environ)(''GOOS'' \<mapsto> goos, ''GOARCH'' \<mapsto> goarch, ''CGO_ENABLED'' \<mapsto> ''0''));
            output_path = npm_packages_dir @ [platform_key npm_os npm_arch, output_name_of goos];
            cmd = build_cmd_of w ldflags output_path;
            rc = subprocess w (Exec cmd) root_dir e
        in (rc, output_path,
            st\<lparr>heap := (heap st)(next_addr st :=
                      (heap st os_environ)(''GOOS'' \<mapsto> goos, ''GOARCH'' \<mapsto> goarch, ''CGO_ENABLED'' \<mapsto> ''0'')),
               next_addr := Suc (next_addr st),
               effects := effects st @ [Mkdir (npm_packages_dir @ [platform_key npm_os npm_arch]),
                                        Run (Exec cmd) root_dir e rc]\<rparr>))"
  by (simp add: build_target_def dict_copy_def dict_set_def perform_def Let_def fun_upd_twist)

lemma build_target_props:
  assumes "build_target w ldflags target st = (rc, output_path, st')"
    and "os_environ < next_addr st"
  shows "heap st' os_environ = heap st os_environ"
    and "os_environ < next_addr st'"
    and "effects st' = effects st @ [Mkdir (npm_packages_dir @ [platform_key (fst (snd (snd target))) (snd (snd (snd target)))]),
                                     toolchain_run w ldflags (heap st os_environ) target rc]"
proof -
  obtain goos goarch npm_os npm_arch where t: "target = (goos, goarch, npm_os, npm_arch)"
    by (cases target) auto
  from assms(1) show "heap st' os_environ = heap st os_environ"
    using assms(2) unfolding t build_target_eq Let_def by auto
  from assms(1) show "os_environ < next_addr st'"
    using assms(2) unfolding t build_target_eq Let_def by auto
  from assms(1) show "effects st' = effects st @ [Mkdir (npm_packages_dir @ [platform_key (fst (snd (snd target))) (snd (snd (snd target)))]),
                                     toolchain_run w ldflags (heap st os_environ) target rc]"
    unfolding t build_target_eq Let_def toolchain_run_def by auto
qed

lemma toolchain_run_failed: "failed_toolchain_run (toolchain_run w ldflags ambient target rc) = (rc \<noteq> 0)"
  by (cases target) (simp add: failed_toolchain_run_def toolchain_run_def build_cmd_of_def)

lemma toolchain_run_not_write: "\<not> is_package_write (toolchain_run w ldflags ambient target rc)"
  by (cases target) (simp add: is_package_write_def toolchain_run_def)

text \<open>
  The loop over the build matrix: \<open>os.environ\<close> is as before; every effect is the creation
  of a directory or the toolchain run of a target, in the environment made for it; and
  when the loop returns non-zero the last effect is the run that returned that code, and
  no run before it failed.
\<close>

lemma build_loop_props:
  assumes "build_loop w ldflags targets success_count total_size st = (rc, st')"
    and "os_environ < next_addr st"
  shows "heap st' os_environ = heap st os_environ
       \<and> (\<exists>new. effects st' = effects st @ new
            \<and> (\<forall>a \<in> set new. (\<exists>p. a = Mkdir p)
                   \<or> (\<exists>target r. target \<in> set targets
                          \<and> a = toolchain_run w ldflags (heap st os_environ) target r))
            \<and> (if rc = 0 then \<forall>a \<in> set new. \<not> failed_toolchain_run a
                else \<exists>pre target. new = pre @ [toolchain_run w ldflags (heap st os_environ) target rc]
                       \<and> (\<forall>a \<in> set pre. \<not> failed_toolchain_run a)))"
  using assms
proof (induction targets arbitrary: success_count total_size st)
  case Nil
  then show ?case by simp
next
  case (Cons target targets)
  obtain r out st1 where bt: "build_target w ldflags target st = (r, out, st1)"
    by (cases "build_target w ldflags target st") auto
  note p = build_target_props [OF bt Cons.prems(2)]
  let ?mk = "Mkdir (npm_packages_dir @ [platform_key (fst (snd (snd target))) (snd (snd (snd target)))])"
  let ?run = "toolchain_run w ldflags (heap st os_environ) target r"
  have "\<exists>t r'. t \<in> set (target # targets)
           \<and> ?run = toolchain_run w ldflags (heap st os_environ) t r'"
    by (intro exI [of _ target] exI [of _ r]) simp
  then have here: "(\<exists>p. ?mk = Mkdir p)
                   \<or> (\<exists>t r. t \<in> set (target # targets)
                          \<and> ?mk = toolchain_run w ldflags (heap st os_environ) t r)"
    "(\<exists>p. ?run = Mkdir p)
                   \<or> (\<exists>t r. t \<in> set (target # targets)
                          \<and> ?run = toolchain_run w ldflags (heap st os_environ) t r)"
    by blast+
  show ?case
  proof (cases "r = 0")
    case False
    with Cons.prems(1) bt have e: "rc = r" "st' = st1" by simp_all
    have h: "heap st' os_environ = heap st os_environ"
      using p(1) e by simp
    have eff: "effects st' = effects st @ [?mk, ?run]" using p(3) e by simp
    have shape: "\<forall>a \<in> set [?mk, ?run]. (\<exists>p. a = Mkdir p)
                   \<or> (\<exists>t r. t \<in> set (target # targets)
                          \<and> a = toolchain_run w ldflags (heap st os_environ) t r)"
      using here by simp
    have "[?mk, ?run] = [?mk] @ [toolchain_run w ldflags (heap st os_environ) target rc]
        \<and> (\<forall>a \<in> set [?mk]. \<not> failed_toolchain_run a)"
      using e by (simp add: failed_toolchain_run_def)
    then have "\<exists>pre t. [?mk, ?run] = pre @ [toolchain_run w ldflags (heap st os_environ) t rc]
                       \<and> (\<forall>a \<in> set pre. \<not> failed_toolchain_run a)"
      by (intro exI [of _ "[?mk]"] exI [of _ target])
    with False e have fin: "if rc = 0 then \<forall>a \<in> set [?mk, ?run]. \<not> failed_toolchain_run a
                else \<exists>pre t. [?mk, ?run] = pre @ [toolchain_run w ldflags (heap st os_environ) t rc]
                       \<and> (\<forall>a \<in> set pre. \<not> failed_toolchain_run a)"
      by (simp only: if_False)
    from h eff shape fin show ?thesis by (intro conjI exI [of _ "[?mk, ?run]"])
  next
    case True
    from Cons.prems(1) bt True obtain sc' ts' where
      rest: "build_loop w ldflags targets sc' ts' st1 = (rc, st')"
      by (auto split: option.splits)
    note IH = Cons.IH [OF rest p(2), unfolded p(1)]
    from IH have h: "heap st' os_environ = heap st os_environ"
      by (rule conjunct1)
    from IH have "\<exists>new. effects st' = effects st1 @ new
            \<and> (\<forall>a \<in> set new. (\<exists>p. a = Mkdir p)
                   \<or> (\<exists>target r. target \<in> set targets
                          \<and> a = toolchain_run w ldflags (heap st os_environ) target r))
            \<and> (if rc = 0 then \<forall>a \<in> set new. \<not> failed_toolchain_run a
                else \<exists>pre target. new = pre @ [toolchain_run w ldflags (heap st os_environ) target rc]
                       \<and> (\<forall>a \<in> set pre. \<not> failed_toolchain_run a))"
      by (rule conjunct2)
    then obtain new where n: "effects st' = effects st1 @ new
            \<and> (\<forall>a \<in> set new. (\<exists>p. a = Mkdir p)
                   \<or> (\<exists>target r. target \<in> set targets
                          \<and> a = toolchain_run w ldflags (heap st os_environ) target r))
            \<and> (if rc = 0 then \<forall>a \<in> set new. \<not> failed_toolchain_run a
                else \<exists>pre target. new = pre @ [toolchain_run w ldflags (heap st os_environ) target rc]
                       \<and> (\<forall>a \<in> set pre. \<not> failed_toolchain_run a))" ..
    from n have new: "effects st' = effects st1 @ new" by (rule conjunct1)
    from n have shape: "\<forall>a \<in> set new. (\<exists>p. a = Mkdir p)
                   \<or> (\<exists>t r. t \<in> set targets
                          \<and> a = toolchain_run w ldflags (heap st os_environ) t r)"
      by (rule conjunct1 [OF conjunct2])
    from n have fin: "if rc = 0 then \<forall>a \<in> set new. \<not> failed_toolchain_run a
                else \<exists>pre t. new = pre @ [toolchain_run w ldflags (heap st os_environ) t rc]
                       \<and> (\<forall>a \<in> set pre. \<not> failed_toolchain_run a)"
      by (rule conjunct2 [OF conjunct2])
    have ok: "\<not> failed_toolchain_run ?mk" "\<not> failed_toolchain_run ?run"
      using True by (simp add: failed_toolchain_run_def, simp add: toolchain_run_failed)
    have eff: "effects st' = effects st @ (?mk # ?run # new)"
      using new p(3) by simp
    have shape': "\<forall>a \<in> set (?mk # ?run # new). (\<exists>p. a = Mkdir p)
                   \<or> (\<exists>t r. t \<in> set (target # targets)
                          \<and> a = toolchain_run w ldflags (heap st os_environ) t r)"
    proof
      fix a
      assume "a \<in> set (?mk # ?run # new)"
      then consider "a = ?mk" | "a = ?run" | "a \<in> set new" by auto
      then show "(\<exists>p. a = Mkdir p)
                   \<or> (\<exists>t r. t \<in> set (target # targets)
                          \<and> a = toolchain_run w ldflags (heap st os_environ) t r)"
      proof cases
        case 1
        with here(1) show ?thesis by simp
      next
        case 2
        with here(2) show ?thesis by simp
      next
        case 3
        with shape have "(\<exists>p. a = Mkdir p)
                   \<or> (\<exists>t r. t \<in> set targets
                          \<and> a = toolchain_run w ldflags (heap st os_environ) t r)" by blast
        then show ?thesis by (metis list.set_intros(2))
      qed
    qed
    have fin': "if rc = 0 then \<forall>a \<in> set (?mk # ?run # new). \<not> failed_toolchain_run a
                else \<exists>pre t. ?mk # ?run # new = pre @ [toolchain_run w ldflags (heap st os_environ) t rc]
                       \<and> (\<forall>a \<in> set pre. \<not> failed_toolchain_run a)"
    proof (cases "rc = 0")
      case True
      with fin ok show ?thesis by simp
    next
      case False
      with fin obtain pre t where "new = pre @ [toolchain_run w ldflags (heap st os_environ) t rc]"
        "\<forall>a \<in> set pre. \<not> failed_toolchain_run a" by auto
      with ok have "?mk # ?run # new = (?mk # ?run # pre) @ [toolchain_run w ldflags (heap st os_environ) t rc]
          \<and> (\<forall>a \<in> set (?mk # ?run # pre). \<not> failed_toolchain_run a)" by simp
      with False show ?thesis by (simp only: if_False) blast
    qed
    from h eff shape' fin' show ?thesis by (intro conjI exI [of _ "?mk # ?run # new"])
  qed
qed



text \<open>
  The steps before the build matrix only add effects, and none of them is a failed
  toolchain run or makes a package.
\<close>

lemma harmless_simps:
  "harmless (Rmtree p)" "harmless (Mkdir p)" "harmless (Unlink p)" "harmless (Copy2 p q)"
  "harmless (Copytree p q)" "harmless (Run (Shell s) cwd e rc)"
  "harmless (Run (Exec [''pnpm'', ''build'']) cwd e rc)"
  by (simp_all add: harmless_def failed_toolchain_run_def is_package_write_def)

lemma perform_ext: "perform a st = st\<lparr>effects := effects st @ [a]\<rparr>"
  by (simp add: perform_def)

lemma ext_trans:
  "st1 = st\<lparr>effects := effects st @ n1\<rparr> \<Longrightarrow> st2 = st1\<lparr>effects := effects st1 @ n2\<rparr>
     \<Longrightarrow> st2 = st\<lparr>effects := effects st @ (n1 @ n2)\<rparr>"
  by simp

lemma clean_items_ext:
  "\<exists>new. clean_items items st = st\<lparr>effects := effects st @ new\<rparr> \<and> list_all harmless new"
proof (induction items arbitrary: st)
  case Nil
  show ?case by (intro exI [of _ "[]"]) simp
next
  case (Cons item items)
  obtain name k where item: "item = (name, k)" by (cases item)
  show ?case
  proof (cases "name = ''README.md'' \<or> (k \<noteq> File \<and> k \<noteq> Dir)")
    case True
    with Cons [of st] item show ?thesis by auto
  next
    case False
    define a where "a = (if k = File then Unlink (static_dir @ [name]) else Rmtree (static_dir @ [name]))"
    have ha: "harmless a" by (simp add: a_def harmless_simps)
    from False item have step: "clean_items (item # items) st = clean_items items (perform a st)"
      by (auto simp add: a_def)
    from Cons [of "perform a st"] obtain new where
      new: "clean_items items (perform a st) = (perform a st)\<lparr>effects := effects (perform a st) @ new\<rparr>"
        "list_all harmless new" by blast
    from new(1) have "clean_items items (perform a st) = st\<lparr>effects := effects st @ (a # new)\<rparr>"
      by (simp add: perform_def)
    with step new(2) ha show ?thesis by (intro exI [of _ "a # new"]) simp
  qed
qed

lemma copy_items_ext:
  "\<exists>new. copy_items w items st = st\<lparr>effects := effects st @ new\<rparr> \<and> list_all harmless new"
proof (induction items arbitrary: st)
  case Nil
  show ?case by (intro exI [of _ "[]"]) simp
next
  case (Cons item items)
  obtain name k where item: "item = (name, k)" by (cases item)
  define pre where "pre =
     (if k = File then [Copy2 (dist_dir @ [name]) (static_dir @ [name])]
      else if k = Dir then
        (if dest_exists w name then [Rmtree (static_dir @ [name])] else [])
        @ [Copytree (dist_dir @ [name]) (static_dir @ [name])]
      else [])"
  have hp: "list_all harmless pre" by (simp add: pre_def harmless_simps)
  have step: "copy_items w (item # items) st = copy_items w items (st\<lparr>effects := effects st @ pre\<rparr>)"
    by (simp add: item pre_def perform_def Let_def)
  from Cons [of "st\<lparr>effects := effects st @ pre\<rparr>"] obtain new where
    new: "copy_items w items (st\<lparr>effects := effects st @ pre\<rparr>)
            = st\<lparr>effects := effects st @ pre @ new\<rparr>"
      "list_all harmless new" by auto
  with step hp show ?case by (intro exI [of _ "pre @ new"]) simp
qed

lemma clean_static_dir_ext:
  "\<exists>new. clean_static_dir w st = st\<lparr>effects := effects st @ new\<rparr> \<and> list_all harmless new"
proof (cases "static_listing w")
  case None
  then show ?thesis
    by (intro exI [of _ "[Mkdir static_dir]"]) (simp add: clean_static_dir_def perform_def harmless_simps)
next
  case (Some items)
  with clean_items_ext [of items st] show ?thesis by (simp add: clean_static_dir_def)
qed

lemma copy_dist_to_static_ext:
  "\<exists>new. snd (copy_dist_to_static w st) = st\<lparr>effects := effects st @ new\<rparr> \<and> list_all harmless new"
proof (cases "dist_listing w")
  case None
  then show ?thesis by (intro exI [of _ "[]"]) (simp add: copy_dist_to_static_def)
next
  case (Some items)
  with copy_items_ext [of w items st] show ?thesis by (simp add: copy_dist_to_static_def)
qed

text \<open>The two generators only add effects, none of them a toolchain run.\<close>

lemma platform_packages_loop_effects:
  "\<exists>new. effects (snd (platform_packages_loop t v ps st)) = effects st @ new
       \<and> list_all (\<lambda>a. \<not> failed_toolchain_run a) new"
proof (induction ps arbitrary: st)
  case Nil
  show ?case by (intro exI [of _ "[]"]) simp
next
  case (Cons p ps)
  obtain npm_os npm_arch where p: "p = (npm_os, npm_arch)" by (cases p)
  let ?touch = "Touch (npm_packages_dir @ [platform_key npm_os npm_arch] @ [''.npm-global''])"
  show ?case
  proof (cases "py_format t (platform_key npm_os npm_arch)")
    case (Ok name)
    let ?manifest = "WritePlatformJson (npm_packages_dir @ [platform_key npm_os npm_arch] @ [''package.json''])
                     (platform_package_json name v npm_os npm_arch)"
    from Cons [of "perform ?manifest (perform ?touch st)"] obtain new where
      "effects (snd (platform_packages_loop t v ps (perform ?manifest (perform ?touch st))))
         = effects st @ ?touch # ?manifest # new" "list_all (\<lambda>a. \<not> failed_toolchain_run a) new"
      by (auto simp add: perform_def)
    with Ok p show ?thesis
      by (intro exI [of _ "?touch # ?manifest # new"]) (simp add: Let_def failed_toolchain_run_def)
  next
    case (Raise e)
    with p show ?thesis
      by (intro exI [of _ "[?touch]"]) (simp add: Let_def perform_def failed_toolchain_run_def)
  next
    case Beyond
    with p show ?thesis
      by (intro exI [of _ "[?touch]"]) (simp add: Let_def perform_def failed_toolchain_run_def)
  qed
qed

lemma create_main_package_effects:
  "\<exists>new. effects (snd (create_main_package v b st)) = effects st @ new
       \<and> list_all (\<lambda>a. \<not> failed_toolchain_run a) new"
proof (cases "platforms_mapping (platform_name_template b)")
  case (Ok mapping)
  let ?mk = "Mkdir (root_dir @ [''npm-bin''])"
  let ?wl = "WriteLauncher (root_dir @ [''npm-bin''] @ [''codekanban.js''])
               \<lparr>l_platforms = mapping, l_base_name = b\<rparr>"
  show ?thesis
  proof (cases "optional_deps_of (platform_name_template b) v")
    case (Ok deps)
    with \<open>platforms_mapping (platform_name_template b) = Ok mapping\<close> show ?thesis
      by (intro exI [of _ "[?mk, ?wl, WriteMainJson (root_dir @ [''package.json''])
                              (main_package_json b v deps)]"])
        (simp add: create_main_package_def Let_def perform_def failed_toolchain_run_def)
  next
    case (Raise e)
    with \<open>platforms_mapping (platform_name_template b) = Ok mapping\<close> show ?thesis
      by (intro exI [of _ "[?mk, ?wl]"])
        (simp add: create_main_package_def Let_def perform_def failed_toolchain_run_def)
  next
    case Beyond
    with \<open>platforms_mapping (platform_name_template b) = Ok mapping\<close> show ?thesis
      by (intro exI [of _ "[?mk, ?wl]"])
        (simp add: create_main_package_def Let_def perform_def failed_toolchain_run_def)
  qed
next
  case (Raise e)
  then show ?thesis by (intro exI [of _ "[]"]) (simp add: create_main_package_def)
next
  case Beyond
  then show ?thesis by (intro exI [of _ "[]"]) (simp add: create_main_package_def)
qed

lemma pnpm_run_command:
  "(if is_windows w then run_command w [''pnpm build''] ui_dir True None st
    else run_command w [''pnpm'', ''build''] ui_dir False None st)
   = (Returned (subprocess w (pnpm_invocation w) ui_dir None),
      perform (Run (pnpm_invocation w) ui_dir None (subprocess w (pnpm_invocation w) ui_dir None)) st)"
  by (simp add: run_command_def pnpm_invocation_def Let_def)

lemma copied_iff: "fst (copy_dist_to_static w st) = (dist_listing w \<noteq> None)"
  by (cases "dist_listing w") (simp_all add: copy_dist_to_static_def)

lemma build_main_unfold:
  "build_main w a st =
     (if \<not> ui_exists w then (Returned 1, before_frontend w st)
      else if subprocess w (pnpm_invocation w) ui_dir None \<noteq> 0
      then (Returned (subprocess w (pnpm_invocation w) ui_dir None), after_frontend w st)
      else if dist_listing w = None then (Returned 1, after_copy w st)
      else
        (case build_go_multiplatform w (a_version_main a) (a_version_prerelease a)
                (a_version_build_metadata a) (a_app_channel a) (after_copy w st) of
           (ret, st6) \<Rightarrow>
             if ret \<noteq> 0 then (Returned ret, st6)
             else
               (case create_platform_packages (a_version a) (a_package_name a) st6 of
                  (Returned ret, st7) \<Rightarrow>
                    if ret \<noteq> 0 then (Returned ret, st7)
                    else create_main_package (a_version a) (a_package_name a) st7
                | (other, st7) \<Rightarrow> (other, st7))))"
proof -
  have c: "copy_dist_to_static w (clean_static_dir w (after_frontend w st))
             = (dist_listing w \<noteq> None, after_copy w st)"
    using copied_iff [of w "clean_static_dir w (after_frontend w st)"]
    by (simp add: after_copy_def prod_eq_iff)
  show ?thesis
    unfolding build_main_def Let_def pnpm_run_command
    unfolding before_frontend_def [symmetric]
    unfolding after_frontend_def [symmetric]
    by (simp only: prod.case outcome.case c not_not)
qed

lemma before_frontend_ext:
  "\<exists>new. before_frontend w st = st\<lparr>effects := effects st @ new\<rparr> \<and> list_all harmless new"
proof (cases "npm_packages_exists w")
  case True
  then show ?thesis
    by (intro exI [of _ "[Rmtree npm_packages_dir, Mkdir npm_packages_dir]"])
      (simp add: before_frontend_def perform_def harmless_simps)
next
  case False
  then show ?thesis
    by (intro exI [of _ "[Mkdir npm_packages_dir]"])
      (simp add: before_frontend_def perform_def harmless_simps)
qed

lemma after_frontend_ext:
  "\<exists>new. after_frontend w st = st\<lparr>effects := effects st @ new\<rparr> \<and> list_all harmless new"
proof -
  from before_frontend_ext [of w st] obtain n where
    n: "before_frontend w st = st\<lparr>effects := effects st @ n\<rparr>" "list_all harmless n" by blast
  let ?run = "Run (pnpm_invocation w) ui_dir None (subprocess w (pnpm_invocation w) ui_dir None)"
  have "harmless ?run" by (simp add: pnpm_invocation_def harmless_simps)
  with n show ?thesis
    by (intro exI [of _ "n @ [?run]"]) (simp add: after_frontend_def perform_def)
qed

lemma after_copy_ext:
  "\<exists>new. after_copy w st = st\<lparr>effects := effects st @ new\<rparr> \<and> list_all harmless new"
proof -
  from after_frontend_ext [of w st] obtain n1 where
    n1: "after_frontend w st = st\<lparr>effects := effects st @ n1\<rparr>" "list_all harmless n1" by blast
  from clean_static_dir_ext [of w "after_frontend w st"] obtain n2 where
    n2: "clean_static_dir w (after_frontend w st)
           = (after_frontend w st)\<lparr>effects := effects (after_frontend w st) @ n2\<rparr>"
      "list_all harmless n2" by blast
  from copy_dist_to_static_ext [of w "clean_static_dir w (after_frontend w st)"] obtain n3 where
    n3: "after_copy w st = (clean_static_dir w (after_frontend w st))
           \<lparr>effects := effects (clean_static_dir w (after_frontend w st)) @ n3\<rparr>"
      "list_all harmless n3" by (auto simp add: after_copy_def)
  from n1(1) n2(1) n3(1) have "after_copy w st = st\<lparr>effects := effects st @ (n1 @ n2 @ n3)\<rparr>"
    by simp
  with n1(2) n2(2) n3(2) show ?thesis by (intro exI [of _ "n1 @ n2 @ n3"]) simp
qed

text \<open>
  A run of the whole pipeline either holds no failed toolchain run at all, or it ends
  with one, returns its code, and has made no package before it.
\<close>

lemma harmless_not_failed: "list_all harmless new \<Longrightarrow> list_all (\<lambda>x. \<not> failed_toolchain_run x) new"
  by (simp add: harmless_def list_all_iff)

lemma build_main_shape:
  assumes run: "build_main w a st = (out, st')" and wf: "os_environ < next_addr st"
  shows "(\<exists>new. effects st' = effects st @ new \<and> list_all (\<lambda>x. \<not> failed_toolchain_run x) new)
       \<or> (\<exists>new target rc. rc \<noteq> 0 \<and> out = Returned rc
             \<and> effects st' = effects st @ new
                  @ [toolchain_run w
                       (ldflags_of (a_version_main a) (a_version_prerelease a)
                          (a_version_build_metadata a) (a_app_channel a))
                       (heap st os_environ) target rc]
             \<and> list_all harmless new)"
    (is "?quiet \<or> ?aborted")
proof -
  let ?ld = "ldflags_of (a_version_main a) (a_version_prerelease a)
               (a_version_build_metadata a) (a_app_channel a)"
  note u = build_main_unfold [of w a st]
  show ?thesis
  proof (cases "\<not> ui_exists w")
    case True
    with run u have "st' = before_frontend w st" by simp
    with before_frontend_ext [of w st] have ?quiet
      by (auto dest: harmless_not_failed)
    then show ?thesis ..
  next
    case ui: False
    show ?thesis
    proof (cases "subprocess w (pnpm_invocation w) ui_dir None \<noteq> 0")
      case True
      with ui run u have "st' = after_frontend w st" by simp
      with after_frontend_ext [of w st] have ?quiet
        by (auto dest: harmless_not_failed)
      then show ?thesis ..
    next
      case pnpm: False
      show ?thesis
      proof (cases "dist_listing w = None")
        case True
        with ui pnpm run u have "st' = after_copy w st" by simp
        with after_copy_ext [of w st] have ?quiet
          by (auto dest: harmless_not_failed)
        then show ?thesis ..
      next
        case dist: False
        from after_copy_ext [of w st] obtain n where
          n: "after_copy w st = st\<lparr>effects := effects st @ n\<rparr>" "list_all harmless n" by blast
        from n(1) wf have wf5: "os_environ < next_addr (after_copy w st)" by simp
        from n(1) have h5: "heap (after_copy w st) os_environ = heap st os_environ" by simp
        from n(1) have e5: "effects (after_copy w st) = effects st @ n" by simp
        obtain r st6 where b: "build_loop w ?ld build_platforms 0 0 (after_copy w st) = (r, st6)"
          by (cases "build_loop w ?ld build_platforms 0 0 (after_copy w st)")
        from build_loop_props [OF b wf5, unfolded h5] obtain bnew where
          bnew: "effects st6 = effects (after_copy w st) @ bnew"
          and shape: "\<forall>x \<in> set bnew. (\<exists>p. x = Mkdir p)
                   \<or> (\<exists>target r. target \<in> set build_platforms
                          \<and> x = toolchain_run w ?ld (heap st os_environ) target r)"
          and fin: "if r = 0 then \<forall>x \<in> set bnew. \<not> failed_toolchain_run x
                else \<exists>pre target. bnew = pre @ [toolchain_run w ?ld (heap st os_environ) target r]
                       \<and> (\<forall>x \<in> set pre. \<not> failed_toolchain_run x)"
          by blast
        have nowrite: "\<forall>x \<in> set bnew. \<not> is_package_write x"
        proof
          fix x
          assume "x \<in> set bnew"
          with shape have "(\<exists>p. x = Mkdir p)
                   \<or> (\<exists>target r. target \<in> set build_platforms
                          \<and> x = toolchain_run w ?ld (heap st os_environ) target r)" by blast
          then show "\<not> is_package_write x"
          proof
            assume "\<exists>p. x = Mkdir p"
            then show ?thesis by (auto simp add: is_package_write_def)
          next
            assume "\<exists>target r. target \<in> set build_platforms
                          \<and> x = toolchain_run w ?ld (heap st os_environ) target r"
            then show ?thesis using toolchain_run_not_write by blast
          qed
        qed
        have "build_main w a st =
             (if r \<noteq> 0 then (Returned r, st6)
              else
                (case create_platform_packages (a_version a) (a_package_name a) st6 of
                   (Returned ret, st7) \<Rightarrow>
                     if ret \<noteq> 0 then (Returned ret, st7)
                     else create_main_package (a_version a) (a_package_name a) st7
                 | (other, st7) \<Rightarrow> (other, st7)))"
          unfolding u build_go_multiplatform_def b
          by (simp only: ui pnpm dist if_False prod.case)
        with run have main:
          "(out, st') =
             (if r \<noteq> 0 then (Returned r, st6)
              else
                (case create_platform_packages (a_version a) (a_package_name a) st6 of
                   (Returned ret, st7) \<Rightarrow>
                     if ret \<noteq> 0 then (Returned ret, st7)
                     else create_main_package (a_version a) (a_package_name a) st7
                 | (other, st7) \<Rightarrow> (other, st7)))"
          by simp
        show ?thesis
        proof (cases "r = 0")
          case False
          with main have o: "out = Returned r" "st' = st6" by simp_all
          from False fin obtain pre target where
            pre: "bnew = pre @ [toolchain_run w ?ld (heap st os_environ) target r]"
              "\<forall>x \<in> set pre. \<not> failed_toolchain_run x" by auto
          from pre nowrite have "list_all harmless pre"
            by (simp add: harmless_def list_all_iff)
          with n(2) have hp: "list_all harmless (n @ pre)" by simp
          from o bnew e5 pre(1) have
            "effects st' = effects st @ (n @ pre) @ [toolchain_run w ?ld (heap st os_environ) target r]"
            by simp
          with False o(1) hp have ?aborted
            by (intro exI [of _ "n @ pre"] exI [of _ target] exI [of _ r] conjI)
          then show ?thesis ..
        next
          case True
          with fin have q6: "list_all (\<lambda>x. \<not> failed_toolchain_run x) bnew"
            by (simp add: list_all_iff)
          obtain o7 st7 where c7: "create_platform_packages (a_version a) (a_package_name a) st6 = (o7, st7)"
            by (cases "create_platform_packages (a_version a) (a_package_name a) st6")
          from platform_packages_loop_effects
            [of "platform_name_template (a_package_name a)" "a_version a" package_platforms st6] c7
          obtain n7 where n7: "effects st7 = effects st6 @ n7"
            "list_all (\<lambda>x. \<not> failed_toolchain_run x) n7"
            by (auto simp add: create_platform_packages_def)
          from create_main_package_effects [of "a_version a" "a_package_name a" st7]
          obtain n8 where n8: "effects (snd (create_main_package (a_version a) (a_package_name a) st7))
                                 = effects st7 @ n8"
            "list_all (\<lambda>x. \<not> failed_toolchain_run x) n8" by blast
          from True main c7 have "st' = st7 \<or> st' = snd (create_main_package (a_version a) (a_package_name a) st7)"
            by (cases o7) (auto split: if_splits dest: arg_cong [where f = snd])
          then have ?quiet
          proof
            assume "st' = st7"
            with n7 bnew e5 have "effects st' = effects st @ (n @ bnew @ n7)" by simp
            moreover from n(2) q6 n7(2) have "list_all (\<lambda>x. \<not> failed_toolchain_run x) (n @ bnew @ n7)"
              by (simp add: harmless_not_failed)
            ultimately show ?quiet by (intro exI [of _ "n @ bnew @ n7"] conjI)
          next
            assume "st' = snd (create_main_package (a_version a) (a_package_name a) st7)"
            with n8 n7 bnew e5 have "effects st' = effects st @ (n @ bnew @ n7 @ n8)" by simp
            moreover from n(2) q6 n7(2) n8(2)
            have "list_all (\<lambda>x. \<not> failed_toolchain_run x) (n @ bnew @ n7 @ n8)"
              by (simp add: harmless_not_failed)
            ultimately show ?quiet by (intro exI [of _ "n @ bnew @ n7 @ n8"] conjI)
          qed
          then show ?thesis ..
        qed
      qed
    qed
  qed
qed

lemmas build_eval =
  build_main_def run_command_def clean_static_dir_def copy_dist_to_static_def
  build_go_multiplatform_def build_target_def dict_copy_def dict_set_def perform_def
  example_world_def example_args_def init_state_def os_environ_def Let_def
  new_effects_def darwin_fails_def nothing_fails_def build_platforms_def

text \<open>
  Every manifest \<open>create_platform_packages\<close> writes is named by \<open>platform_name\<close> from the
  key of its directory, and is gated to the one operating system and processor of that
  key.
\<close>

lemma platform_manifest_named_by_rule:
  assumes "WritePlatformJson p m \<in> set (new_effects st (snd (platform_packages_loop t v ps st)))"
  shows "\<exists>npm_os npm_arch. (npm_os, npm_arch) \<in> set ps
           \<and> p = npm_packages_dir @ [platform_key npm_os npm_arch, ''package.json'']
           \<and> py_format t (platform_key npm_os npm_arch) = Ok (pm_name m)
           \<and> pm_version m = v \<and> pm_os m = [npm_os] \<and> pm_cpu m = [npm_arch]"
  using assms
proof (induction ps arbitrary: st)
  case Nil
  then show ?case by (simp add: new_effects_def)
next
  case (Cons q ps)
  obtain npm_os npm_arch where q: "q = (npm_os, npm_arch)" by (cases q)
  let ?touch = "Touch (npm_packages_dir @ [platform_key npm_os npm_arch] @ [''.npm-global''])"
  show ?case
  proof (cases "py_format t (platform_key npm_os npm_arch)")
    case (Ok name)
    let ?manifest = "WritePlatformJson (npm_packages_dir @ [platform_key npm_os npm_arch] @ [''package.json''])
                     (platform_package_json name v npm_os npm_arch)"
    let ?st2 = "perform ?manifest (perform ?touch st)"
    from platform_packages_loop_effects [of t v ps ?st2] obtain new where
      new: "effects (snd (platform_packages_loop t v ps ?st2)) = effects ?st2 @ new" by blast
    from Ok q have step: "platform_packages_loop t v (q # ps) st = platform_packages_loop t v ps ?st2"
      by (simp add: Let_def)
    from new have a: "new_effects st (snd (platform_packages_loop t v ps ?st2)) = ?touch # ?manifest # new"
      by (simp add: new_effects_def perform_def)
    from new have b: "new_effects ?st2 (snd (platform_packages_loop t v ps ?st2)) = new"
      by (simp add: new_effects_def)
    from Cons.prems step a have "WritePlatformJson p m = ?manifest \<or> WritePlatformJson p m \<in> set new"
      by simp
    then show ?thesis
    proof
      assume "WritePlatformJson p m = ?manifest"
      with Ok q show ?thesis by (auto simp add: platform_package_json_def)
    next
      assume "WritePlatformJson p m \<in> set new"
      with b have "WritePlatformJson p m \<in> set (new_effects ?st2 (snd (platform_packages_loop t v ps ?st2)))"
        by simp
      from Cons.IH [OF this] show ?thesis by auto
    qed
  next
    case (Raise e)
    with q Cons.prems show ?thesis by (simp add: Let_def perform_def new_effects_def)
  next
    case Beyond
    with q Cons.prems show ?thesis by (simp add: Let_def perform_def new_effects_def)
  qed
qed

section \<open>The claims\<close>

subsection \<open>C1: the naming rule\<close>

text \<open>
  On package names without braces the rule holds as the comments of both generators state
  it (\<open>platform_name_no_braces\<close>), and the three places that name a platform package all
  call \<open>format\<close> on the same template: the manifests of the platform packages
  (\<open>platform_manifest_named_by_rule\<close>), the launcher's table (\<open>mapping_entry\<close>) and the
  optional dependencies (C4). A package name is pasted into the template unescaped,
  though, so its braces are read by \<open>format\<close>.

  Claim C1 says that for every main package name \<open>n\<close> not starting with \<open>@\<close> the platform
  package name is \<open>@n/key\<close>, and for every name starting with \<open>@\<close> it is the name, \<open>-\<close> and
  the key. The theorem evaluates the code on \<^verbatim>\<open>--package-name 'a{{b'\<close>, where the doubled
  brace is folded into one and the package is named \<open>@a{b/linux-x64\<close> instead of
  \<open>@a{{b/linux-x64\<close>, and on \<^verbatim>\<open>--package-name '@s/n{}'\<close>, where \<open>format\<close> raises and no name is
  produced at all.
\<close>

theorem platform_name_reads_braces:
  "platform_name ''a{{b'' ''linux-x64'' = Ok ''@a{b/linux-x64''
   \<and> platform_name ''a{{b'' ''linux-x64'' \<noteq> Ok (''@'' @ ''a{{b'' @ ''/'' @ ''linux-x64'')
   \<and> platform_name ''@s/n{}'' ''linux-x64'' = Raise IndexError"
  by (simp add: platform_name_def platform_name_template_def startswith_def py_format_def
      emit_def get_field_def)

subsection \<open>C2: one set of platform keys\<close>

text \<open>
  Claim C2: the keys of the launcher's resolution table are exactly the keys
  \<open>npm_os-npm_arch\<close> of the build matrix and exactly those of the list of
  \<open>create_platform_packages\<close>; no key is missing, none is extra, none is repeated. The
  table is the one \<open>create_main_package\<close> pastes into the launcher, for any package name on
  which it gets that far.
\<close>

theorem launcher_table_keys_match_lists:
  assumes "platforms_mapping (platform_name_template base_name) = Ok mapping"
  shows "set (map fst mapping)
           = set (map (\<lambda>(goos, goarch, npm_os, npm_arch). platform_key npm_os npm_arch)
                    build_platforms)
       \<and> set (map fst mapping)
           = set (map (\<lambda>(npm_os, npm_arch). platform_key npm_os npm_arch) package_platforms)
       \<and> distinct (map fst mapping)
       \<and> length mapping = length build_platforms
       \<and> length mapping = length package_platforms"
proof -
  have keys: "map fst mapping = main_platforms"
    using assms by (rule platforms_mapping_keys)
  have len: "length mapping = length main_platforms"
    using keys by (metis length_map)
  have b: "set main_platforms
             = set (map (\<lambda>(goos, goarch, npm_os, npm_arch). platform_key npm_os npm_arch)
                      build_platforms)"
    by (auto simp add: main_platforms_def build_platforms_def platform_key_def)
  have c: "set main_platforms
             = set (map (\<lambda>(npm_os, npm_arch). platform_key npm_os npm_arch) package_platforms)"
    by (auto simp add: main_platforms_def package_platforms_def platform_key_def)
  have d: "distinct main_platforms"
    by (simp add: main_platforms_def)
  have l: "length main_platforms = length build_platforms"
    "length main_platforms = length package_platforms"
    by (simp_all add: main_platforms_def build_platforms_def package_platforms_def)
  from keys len b c d l show ?thesis by simp
qed

theorem launcher_table_keys_match_lists_witness:
  "platforms_mapping (platform_name_template ''codekanban'')
     = Ok [(''win32-x64'', ''@codekanban/win32-x64''),
           (''darwin-x64'', ''@codekanban/darwin-x64''),
           (''darwin-arm64'', ''@codekanban/darwin-arm64''),
           (''linux-x64'', ''@codekanban/linux-x64''),
           (''linux-arm64'', ''@codekanban/linux-arm64'')]
   \<and> set [''win32-x64'', ''darwin-x64'', ''darwin-arm64'', ''linux-x64'', ''linux-arm64'']
       = set (map (\<lambda>(goos, goarch, npm_os, npm_arch). platform_key npm_os npm_arch)
                build_platforms)"
proof -
  have h: "platforms_mapping (platform_name_template ''codekanban'')
     = Ok [(''win32-x64'', ''@codekanban/win32-x64''),
           (''darwin-x64'', ''@codekanban/darwin-x64''),
           (''darwin-arm64'', ''@codekanban/darwin-arm64''),
           (''linux-x64'', ''@codekanban/linux-x64''),
           (''linux-arm64'', ''@codekanban/linux-arm64'')]"
    by (simp add: platforms_mapping_def platform_name_template_def startswith_def py_format_def
        main_platforms_def emit_def get_field_def)
  from launcher_table_keys_match_lists [OF h] h show ?thesis by simp
qed

subsection \<open>C3: a toolchain failure stops the pipeline\<close>

text \<open>
  A package is what \<open>create_platform_packages\<close> and \<open>create_main_package\<close> make: the marker
  file and the manifest in a platform directory, the launcher and the main manifest. The
  toolchain itself writes the binaries into the platform directories that the build
  matrix creates; those of the targets built before a failure stay where they are.

  Claim C3: in every run of the pipeline in which a toolchain invocation returns a
  non-zero code, that invocation is the last thing the run does (no later target is
  built), no toolchain invocation before it had failed, the run returns that non-zero
  code, which \<open>sys.exit\<close> makes the exit code of the process, and the run makes no package
  for any target, those built before the failing one included.
\<close>

theorem toolchain_failure_aborts:
  assumes "build_main w a st = (out, st')"
    and "os_environ < next_addr st"
    and "Run (Exec cmd) cwd e rc \<in> set (new_effects st st')"
    and "take 2 cmd = [''go'', ''build'']"
    and "rc \<noteq> 0"
  shows "out = Returned rc
       \<and> last (effects st') = Run (Exec cmd) cwd e rc
       \<and> list_all (\<lambda>x. \<not> failed_toolchain_run x) (butlast (new_effects st st'))
       \<and> list_all (\<lambda>x. \<not> is_package_write x) (new_effects st st')"
proof -
  let ?x = "Run (Exec cmd) cwd e rc"
  have fx: "failed_toolchain_run ?x"
    using assms(4,5) by (simp add: failed_toolchain_run_def)
  from build_main_shape [OF assms(1,2)]
  show ?thesis
  proof
    assume "\<exists>new. effects st' = effects st @ new \<and> list_all (\<lambda>x. \<not> failed_toolchain_run x) new"
    then obtain new where "new_effects st st' = new" "list_all (\<lambda>x. \<not> failed_toolchain_run x) new"
      by (auto simp add: new_effects_def)
    with assms(3) fx show ?thesis by (auto simp add: list_all_iff)
  next
    let ?ld = "ldflags_of (a_version_main a) (a_version_prerelease a)
                 (a_version_build_metadata a) (a_app_channel a)"
    assume "\<exists>new target r. r \<noteq> 0 \<and> out = Returned r
             \<and> effects st' = effects st @ new @ [toolchain_run w ?ld (heap st os_environ) target r]
             \<and> list_all harmless new"
    then obtain new target r where r: "r \<noteq> 0" "out = Returned r"
      and eff: "effects st' = effects st @ new @ [toolchain_run w ?ld (heap st os_environ) target r]"
      and h: "list_all harmless new" by blast
    let ?f = "toolchain_run w ?ld (heap st os_environ) target r"
    from eff have ne: "new_effects st st' = new @ [?f]" by (simp add: new_effects_def)
    from h fx have "?x \<notin> set new" by (auto simp add: harmless_def list_all_iff)
    with assms(3) ne have x: "?x = ?f" by simp
    obtain goos goarch npm_os npm_arch where "target = (goos, goarch, npm_os, npm_arch)"
      by (cases target) auto
    with x have "rc = r" by (simp add: toolchain_run_def)
    with r have "out = Returned rc" by simp
    moreover from eff x have "last (effects st') = ?x" by simp
    moreover from ne h have "list_all (\<lambda>x. \<not> failed_toolchain_run x) (butlast (new_effects st st'))"
      by (simp add: harmless_not_failed)
    moreover from ne h have "list_all (\<lambda>x. \<not> is_package_write x) (new_effects st st')"
      by (simp add: harmless_def list_all_iff toolchain_run_not_write)
    ultimately show ?thesis by simp
  qed
qed

theorem toolchain_failure_aborts_witness:
  "os_environ < next_addr (init_state example_env)
   \<and> Run (Exec (build_cmd_of (example_world darwin_fails) (ldflags_of ''1.2.3'' [] [] ''stable'')
                  [''npm-packages'', ''darwin-x64'', ''codekanban'']))
        []
        (Some (example_env(''GOOS'' \<mapsto> ''darwin'', ''GOARCH'' \<mapsto> ''amd64'', ''CGO_ENABLED'' \<mapsto> ''0'')))
        2
       \<in> set (new_effects (init_state example_env)
                (snd (build_main (example_world darwin_fails) example_args (init_state example_env))))
   \<and> fst (build_main (example_world darwin_fails) example_args (init_state example_env)) = Returned 2
   \<and> last (effects (snd (build_main (example_world darwin_fails) example_args
                            (init_state example_env))))
       = Run (Exec (build_cmd_of (example_world darwin_fails) (ldflags_of ''1.2.3'' [] [] ''stable'')
                      [''npm-packages'', ''darwin-x64'', ''codekanban'']))
           []
           (Some (example_env(''GOOS'' \<mapsto> ''darwin'', ''GOARCH'' \<mapsto> ''amd64'', ''CGO_ENABLED'' \<mapsto> ''0'')))
           2
   \<and> list_all (\<lambda>x. \<not> is_package_write x)
        (new_effects (init_state example_env)
           (snd (build_main (example_world darwin_fails) example_args (init_state example_env))))
   \<and> Run (Exec (build_cmd_of (example_world darwin_fails) (ldflags_of ''1.2.3'' [] [] ''stable'')
                  [''npm-packages'', ''linux-x64'', ''codekanban'']))
        []
        (Some (example_env(''GOOS'' \<mapsto> ''linux'', ''GOARCH'' \<mapsto> ''amd64'', ''CGO_ENABLED'' \<mapsto> ''0'')))
        0
       \<in> set (new_effects (init_state example_env)
                (snd (build_main (example_world darwin_fails) example_args (init_state example_env))))"
proof -
  let ?w = "example_world darwin_fails"
  let ?st = "init_state example_env"
  let ?cmd = "build_cmd_of ?w (ldflags_of ''1.2.3'' [] [] ''stable'')
                [''npm-packages'', ''darwin-x64'', ''codekanban'']"
  let ?e = "Some (example_env(''GOOS'' \<mapsto> ''darwin'', ''GOARCH'' \<mapsto> ''amd64'', ''CGO_ENABLED'' \<mapsto> ''0''))"
  have h1: "build_main ?w example_args ?st
              = (fst (build_main ?w example_args ?st), snd (build_main ?w example_args ?st))"
    by simp
  have h2: "os_environ < next_addr ?st"
    by (simp add: init_state_def)
  have h3: "Run (Exec ?cmd) [] ?e 2 \<in> set (new_effects ?st (snd (build_main ?w example_args ?st)))"
    by (simp add: build_eval npm_packages_dir_def root_dir_def platform_key_def output_name_of_def)
  have h4: "take 2 ?cmd = [''go'', ''build'']"
    by (simp add: build_cmd_of_def)
  have h5: "(2::int) \<noteq> 0" by simp
  have before: "Run (Exec (build_cmd_of ?w (ldflags_of ''1.2.3'' [] [] ''stable'')
                  [''npm-packages'', ''linux-x64'', ''codekanban'']))
        []
        (Some (example_env(''GOOS'' \<mapsto> ''linux'', ''GOARCH'' \<mapsto> ''amd64'', ''CGO_ENABLED'' \<mapsto> ''0'')))
        0
       \<in> set (new_effects ?st (snd (build_main ?w example_args ?st)))"
    by (simp add: build_eval npm_packages_dir_def root_dir_def platform_key_def output_name_of_def)
  from toolchain_failure_aborts [OF h1 h2 h3 h4 h5] h2 h3 before show ?thesis by simp
qed

subsection \<open>C4: the optional dependencies of the main package\<close>

text \<open>
  Claim C4: for every version string and every main package name for which
  \<open>create_main_package\<close> returns, the manifest it writes last has one optional dependency
  for each of the five platform keys, named as \<open>platform_name\<close> names that key, no name
  twice, and the version of every one of them is the version string, which is also the
  manifest's own \<open>version\<close>.
\<close>

theorem main_manifest_optional_dependencies:
  assumes "create_main_package version base_name st = (Returned 0, st')"
  shows "\<exists>m. last (effects st') = WriteMainJson [''package.json''] m
           \<and> mm_version m = version
           \<and> map (platform_name base_name) main_platforms
               = map Ok (map fst (mm_optionalDependencies m))
           \<and> distinct (map fst (mm_optionalDependencies m))
           \<and> length (mm_optionalDependencies m) = 5
           \<and> list_all (\<lambda>(name, v). v = mm_version m) (mm_optionalDependencies m)"
proof -
  let ?t = "platform_name_template base_name"
  from assms obtain names where names: "format_all ?t main_platforms = Ok names"
    by (auto simp add: create_main_package_def platforms_mapping_def Let_def split: result.splits)
  note deps = optional_deps_of_Ok [OF names, of version]
  let ?deps = "map (\<lambda>name. (name, version)) names"
  let ?m = "main_package_json base_name version ?deps"
  from assms names deps have last: "last (effects st') = WriteMainJson [''package.json''] ?m"
    by (auto simp add: create_main_package_def platforms_mapping_def Let_def perform_def root_dir_def)
  have len: "length names = 5"
    using format_all_length [OF names] by (simp add: main_platforms_def)
  have nm: "map (platform_name base_name) main_platforms = map Ok names"
    using format_all_nth [OF names] format_all_length [OF names]
    by (auto simp add: list_eq_iff_nth_eq platform_name_def)
  have "mm_version ?m = version" by (simp add: main_package_json_def)
  moreover have "map fst (mm_optionalDependencies ?m) = names"
    by (simp add: main_package_json_def comp_def)
  moreover have "length (mm_optionalDependencies ?m) = 5"
    using len by (simp add: main_package_json_def)
  moreover have "list_all (\<lambda>(name, v). v = mm_version ?m) (mm_optionalDependencies ?m)"
    by (simp add: main_package_json_def list_all_iff)
  ultimately have "last (effects st') = WriteMainJson [''package.json''] ?m
           \<and> mm_version ?m = version
           \<and> map (platform_name base_name) main_platforms
               = map Ok (map fst (mm_optionalDependencies ?m))
           \<and> distinct (map fst (mm_optionalDependencies ?m))
           \<and> length (mm_optionalDependencies ?m) = 5
           \<and> list_all (\<lambda>(name, v). v = mm_version ?m) (mm_optionalDependencies ?m)"
    using last nm platform_names_distinct [OF names] by simp
  then show ?thesis by (rule exI)
qed

theorem main_manifest_optional_dependencies_witness:
  "fst (create_main_package ''1.2.3'' ''codekanban'' (init_state Map.empty)) = Returned 0
   \<and> (\<exists>m. last (effects (snd (create_main_package ''1.2.3'' ''codekanban'' (init_state Map.empty))))
             = WriteMainJson [''package.json''] m
           \<and> mm_version m = ''1.2.3''
           \<and> map (platform_name ''codekanban'') main_platforms
               = map Ok (map fst (mm_optionalDependencies m))
           \<and> distinct (map fst (mm_optionalDependencies m))
           \<and> length (mm_optionalDependencies m) = 5
           \<and> list_all (\<lambda>(name, v). v = mm_version m) (mm_optionalDependencies m))"
proof -
  have f: "fst (create_main_package ''1.2.3'' ''codekanban'' (init_state Map.empty)) = Returned 0"
    by (simp add: create_main_package_def platforms_mapping_def optional_deps_of_def
        platform_name_template_def startswith_def py_format_def main_platforms_def emit_def
        get_field_def Let_def)
  then have h: "create_main_package ''1.2.3'' ''codekanban'' (init_state Map.empty)
      = (Returned 0, snd (create_main_package ''1.2.3'' ''codekanban'' (init_state Map.empty)))"
    by (metis prod.collapse)
  from main_manifest_optional_dependencies [OF h] f show ?thesis by simp
qed

subsection \<open>C5: version injection\<close>


subsection \<open>C6: a platform that is not in the table\<close>

text \<open>
  The launchers below are those \<open>create_main_package\<close> writes for a package name that is
  legal between the quotes of the script.

  Claim C6: on every host whose key \<open>platform-arch\<close> is not a key of the launcher's table,
  the launcher writes to the error stream the line naming the key and the line that
  lists all five supported keys, spawns nothing and exits with code 1.
\<close>

theorem launcher_unsupported_platform:
  assumes "platforms_mapping (platform_name_template base_name) = Ok mapping"
    and "literal_safe base_name"
    and "h_platform h @ ''-'' @ h_arch h \<notin> set (map fst mapping)"
  shows "launch \<lparr>l_platforms = mapping, l_base_name = base_name\<rparr> h
           = Some \<lparr>lr_stderr =
                     [''Unsupported platform: '' @ h_platform h @ ''-'' @ h_arch h,
                      ''Supported platforms: win32-x64, darwin-x64, darwin-arm64, linux-x64, linux-arm64''],
                   lr_spawned = None,
                   lr_exit = 1\<rparr>"
proof -
  let ?l = "\<lparr>l_platforms = mapping, l_base_name = base_name\<rparr>"
  have wf: "launcher_wellformed ?l"
    using assms(1,2) by (rule generated_launcher_wellformed)
  have none: "map_of mapping (h_platform h @ ''-'' @ h_arch h) = None"
    using assms(3) by (simp add: map_of_eq_None_iff)
  have keys: "map fst mapping = main_platforms"
    using assms(1) by (rule platforms_mapping_keys)
  from wf none show ?thesis
    by (simp add: launch_def Let_def unsupported_platform_def keys supported_platforms_line)
qed

theorem launcher_unsupported_platform_witness:
  "platforms_mapping (platform_name_template ''codekanban'') = Ok codekanban_mapping
   \<and> literal_safe ''codekanban''
   \<and> ''linux-riscv64'' \<notin> set (map fst codekanban_mapping)
   \<and> launch \<lparr>l_platforms = codekanban_mapping, l_base_name = ''codekanban''\<rparr>
        (example_host\<lparr>h_arch := ''riscv64''\<rparr>)
       = Some \<lparr>lr_stderr =
                 [''Unsupported platform: linux-riscv64'',
                  ''Supported platforms: win32-x64, darwin-x64, darwin-arm64, linux-x64, linux-arm64''],
               lr_spawned = None,
               lr_exit = 1\<rparr>"
proof -
  have k: "h_platform (example_host\<lparr>h_arch := ''riscv64''\<rparr>) @ ''-''
             @ h_arch (example_host\<lparr>h_arch := ''riscv64''\<rparr>)
           \<notin> set (map fst codekanban_mapping)"
    by (simp add: example_host_def codekanban_mapping_def)
  from launcher_unsupported_platform [OF codekanban_mapping_generated codekanban_literal_safe k]
    codekanban_mapping_generated codekanban_literal_safe k
  show ?thesis by (simp add: example_host_def)
qed

subsection \<open>C7: the platform package is not installed\<close>

text \<open>
  Claim C7: on every host whose key is in the table but whose platform package
  \<open>require.resolve\<close> cannot find, the launcher catches the failure, prints the advice to
  uninstall and reinstall the main package (with npm or with pnpm), spawns nothing and
  exits with code 1.
\<close>

theorem launcher_package_not_installed:
  assumes "platforms_mapping (platform_name_template base_name) = Ok mapping"
    and "literal_safe base_name"
    and "map_of mapping (h_platform h @ ''-'' @ h_arch h) = Some packageName"
    and "h_resolve h (packageName @ ''/package.json'') = None"
  shows "launch \<lparr>l_platforms = mapping, l_base_name = base_name\<rparr> h
           = Some \<lparr>lr_stderr =
                     [''Failed to find binary for '' @ h_platform h @ ''-'' @ h_arch h,
                      ''Make sure '' @ packageName @ '' is installed'',
                      [],
                      ''Try one of the following:'',
                      ''  1. Uninstall and reinstall with npm:'',
                      ''     npm uninstall -g '' @ base_name,
                      ''     npm install -g '' @ base_name,
                      ''  2. Or uninstall and reinstall with pnpm:'',
                      ''     pnpm uninstall -g '' @ base_name,
                      ''     pnpm install -g '' @ base_name],
                   lr_spawned = None,
                   lr_exit = 1\<rparr>"
proof -
  let ?l = "\<lparr>l_platforms = mapping, l_base_name = base_name\<rparr>"
  have wf: "launcher_wellformed ?l"
    using assms(1,2) by (rule generated_launcher_wellformed)
  from assms(3) have "(h_platform h @ ''-'' @ h_arch h, packageName) \<in> set mapping"
    by (rule map_of_SomeD)
  from mapping_entry [OF assms(1) this] have ne: "packageName \<noteq> []"
    using platform_name_nonempty by blast
  from wf ne assms(3,4) show ?thesis
    by (simp add: launch_def Let_def binary_not_found_def)
qed

theorem launcher_package_not_installed_witness:
  "platforms_mapping (platform_name_template ''codekanban'') = Ok codekanban_mapping
   \<and> literal_safe ''codekanban''
   \<and> map_of codekanban_mapping ''linux-arm64'' = Some ''@codekanban/linux-arm64''
   \<and> h_resolve example_host ''@codekanban/linux-arm64/package.json'' = None
   \<and> launch \<lparr>l_platforms = codekanban_mapping, l_base_name = ''codekanban''\<rparr>
        (example_host\<lparr>h_arch := ''arm64''\<rparr>)
       = Some \<lparr>lr_stderr =
                 [''Failed to find binary for linux-arm64'',
                  ''Make sure @codekanban/linux-arm64 is installed'',
                  [],
                  ''Try one of the following:'',
                  ''  1. Uninstall and reinstall with npm:'',
                  ''     npm uninstall -g codekanban'',
                  ''     npm install -g codekanban'',
                  ''  2. Or uninstall and reinstall with pnpm:'',
                  ''     pnpm uninstall -g codekanban'',
                  ''     pnpm install -g codekanban''],
               lr_spawned = None,
               lr_exit = 1\<rparr>"
proof -
  let ?h = "example_host\<lparr>h_arch := ''arm64''\<rparr>"
  have m: "map_of codekanban_mapping (h_platform ?h @ ''-'' @ h_arch ?h)
             = Some ''@codekanban/linux-arm64''"
    by (simp add: example_host_def codekanban_mapping_def)
  have r: "h_resolve ?h (''@codekanban/linux-arm64'' @ ''/package.json'') = None"
    by (simp add: example_host_def)
  from launcher_package_not_installed [OF codekanban_mapping_generated codekanban_literal_safe m r]
    codekanban_mapping_generated codekanban_literal_safe m r
  show ?thesis by (simp add: example_host_def)
qed

subsection \<open>C8: running the binary\<close>

text \<open>
  Claim C8: when the platform package resolves, the launcher spawns the binary in the
  package's directory with all arguments of its own invocation (\<open>process.argv\<close> without
  the two leading entries for Node and the script), with inherited standard streams, and
  when the child exits the launcher exits with the child's code, or with 0 when the child
  reports none. (When the child cannot be started the launcher exits with 1.)
\<close>

theorem launcher_runs_binary:
  assumes "platforms_mapping (platform_name_template base_name) = Ok mapping"
    and "literal_safe base_name"
    and "map_of mapping (h_platform h @ ''-'' @ h_arch h) = Some packageName"
    and "h_resolve h (packageName @ ''/package.json'') = Some packagePath"
  shows "\<exists>r request.
           launch \<lparr>l_platforms = mapping, l_base_name = base_name\<rparr> h = Some r
         \<and> request = \<lparr>sp_file = h_join h (h_dirname h packagePath)
                                   (if h_platform h = ''win32'' then ''codekanban.exe''
                                    else ''codekanban''),
                       sp_args = drop 2 (h_argv h),
                       sp_stdio = Inherit,
                       sp_windowsHide = False\<rparr>
         \<and> lr_spawned r = Some request
         \<and> (case h_child h request of
               ChildExit code \<Rightarrow> lr_exit r = (case code of None \<Rightarrow> 0 | Some c \<Rightarrow> c)
             | ChildError message \<Rightarrow> lr_exit r = 1)"
proof -
  let ?l = "\<lparr>l_platforms = mapping, l_base_name = base_name\<rparr>"
  have wf: "launcher_wellformed ?l"
    using assms(1,2) by (rule generated_launcher_wellformed)
  from assms(3) have "(h_platform h @ ''-'' @ h_arch h, packageName) \<in> set mapping"
    by (rule map_of_SomeD)
  from mapping_entry [OF assms(1) this] have ne: "packageName \<noteq> []"
    using platform_name_nonempty by blast
  from wf ne assms(3,4) show ?thesis
    by (auto simp add: launch_def Let_def run_binary_def split: child_event.splits option.splits)
qed

theorem launcher_runs_binary_witness:
  "platforms_mapping (platform_name_template ''codekanban'') = Ok codekanban_mapping
   \<and> literal_safe ''codekanban''
   \<and> map_of codekanban_mapping ''linux-x64'' = Some ''@codekanban/linux-x64''
   \<and> h_resolve example_host ''@codekanban/linux-x64/package.json''
       = Some ''/usr/lib/node_modules/@codekanban/linux-x64/package.json''
   \<and> launch \<lparr>l_platforms = codekanban_mapping, l_base_name = ''codekanban''\<rparr> example_host
       = Some \<lparr>lr_stderr = [],
               lr_spawned =
                 Some \<lparr>sp_file = ''/usr/lib/node_modules/@codekanban/linux-x64/codekanban'',
                       sp_args = [''--port'', ''3007''],
                       sp_stdio = Inherit,
                       sp_windowsHide = False\<rparr>,
               lr_exit = 3\<rparr>"
proof -
  let ?h = "example_host"
  have m: "map_of codekanban_mapping (h_platform ?h @ ''-'' @ h_arch ?h)
             = Some ''@codekanban/linux-x64''"
    by (simp add: example_host_def codekanban_mapping_def)
  have r: "h_resolve ?h (''@codekanban/linux-x64'' @ ''/package.json'')
             = Some ''/usr/lib/node_modules/@codekanban/linux-x64/package.json''"
    by (simp add: example_host_def)
  from launcher_runs_binary [OF codekanban_mapping_generated codekanban_literal_safe m r]
  obtain res where res: "launch \<lparr>l_platforms = codekanban_mapping, l_base_name = ''codekanban''\<rparr> ?h = Some res"
    by blast
  have v: "launch \<lparr>l_platforms = codekanban_mapping, l_base_name = ''codekanban''\<rparr> example_host
       = Some \<lparr>lr_stderr = [],
               lr_spawned =
                 Some \<lparr>sp_file = ''/usr/lib/node_modules/@codekanban/linux-x64/codekanban'',
                       sp_args = [''--port'', ''3007''],
                       sp_stdio = Inherit,
                       sp_windowsHide = False\<rparr>,
               lr_exit = 3\<rparr>"
    by (simp add: launch_def launcher_wellformed_def literal_safe_def codekanban_mapping_def
        example_host_def run_binary_def Let_def)
  from res v codekanban_mapping_generated codekanban_literal_safe m r
  show ?thesis by (simp add: example_host_def)
qed

subsection \<open>C9: publishing from GitHub Actions\<close>

text \<open>
  Claim C9 says that in GitHub Actions (\<open>GITHUB_ACTIONS\<close> is \<open>true\<close>) a missing
  \<open>NODE_AUTH_TOKEN\<close> makes the publish script fail before any publish attempt, and that
  every publish command carries \<^verbatim>\<open>--provenance\<close> there. The script looks at the token
  only inside the branch taken when the identity check \<^verbatim>\<open>npm whoami\<close> has failed. When the
  check succeeds (the registry is authenticated by other means) the token is never read:
  in the run below the variable is missing, every package is published and the script
  returns 0.
\<close>

theorem publish_without_token_counterexample:
  "is_github_actions (init_state github_actions_env)
   \<and> getenv (init_state github_actions_env) ''NODE_AUTH_TOKEN'' = None
   \<and> fst (publish_main (example_pworld all_succeed) (init_state github_actions_env)) = Returned 0
   \<and> effects (snd (publish_main (example_pworld all_succeed) (init_state github_actions_env)))
       = [Run (Exec [''npm'', ''whoami'']) [] None 0,
          Run (Exec [''npm'', ''publish'', ''--access'', ''public'', ''--provenance''])
            [''npm-packages'', ''win32-x64''] None 0,
          Run (Exec [''npm'', ''publish'', ''--access'', ''public'', ''--provenance''])
            [''npm-packages'', ''darwin-x64''] None 0,
          Run (Exec [''npm'', ''publish'', ''--access'', ''public'', ''--provenance''])
            [''npm-packages'', ''darwin-arm64''] None 0,
          Run (Exec [''npm'', ''publish'', ''--access'', ''public'', ''--provenance''])
            [''npm-packages'', ''linux-x64''] None 0,
          Run (Exec [''npm'', ''publish'', ''--access'', ''public'', ''--provenance''])
            [''npm-packages'', ''linux-arm64''] None 0,
          Run (Exec [''npm'', ''publish'', ''--access'', ''public'', ''--provenance''])
            [] None 0]"
  by (simp add: publish_eval)

text \<open>
  C9 as amended: in GitHub Actions, when the identity check \<^verbatim>\<open>npm whoami\<close> returns non-zero
  and \<open>NODE_AUTH_TOKEN\<close> is missing (or empty), the script fails before any publish
  command is run: it returns 1, or it has already stopped on the main manifest. And in
  GitHub Actions every publish command the script runs carries \<^verbatim>\<open>--provenance\<close>.
\<close>

theorem publish_in_github_actions:
  assumes "is_github_actions st"
  shows "(pw_subprocess w (publish_invocation w [''npm'', ''whoami'']) root_dir \<noteq> 0
            \<and> \<not> truthy (getenv st ''NODE_AUTH_TOKEN'')
          \<longrightarrow> fst (publish_main w st) \<in> {Returned 1, Raised JSONDecodeError, Raised AttributeError}
              \<and> list_all (\<lambda>a. \<not> is_publish a) (new_effects st (snd (publish_main w st))))
       \<and> list_all (\<lambda>a. is_publish a \<longrightarrow> has_provenance a)
            (new_effects st (snd (publish_main w st)))"
proof -
  from publish_main_effects [OF assms, of w] obtain new
    where new: "effects (snd (publish_main w st)) = effects st @ new"
      and shape: "\<forall>a \<in> set new.
             (\<exists>cwd rc. a = Run (publish_invocation w [''npm'', ''whoami'']) cwd None rc)
           \<or> (\<exists>cwd rc. a = Run (publish_invocation w
                   [''npm'', ''publish'', ''--access'', ''public'', ''--provenance'']) cwd None rc)"
    by blast
  have ne: "new_effects st (snd (publish_main w st)) = new"
    using new by (rule new_effects_append)
  have prov: "list_all (\<lambda>a. is_publish a \<longrightarrow> has_provenance a) new"
    using shape by (auto simp add: list_all_iff provenance_publish whoami_not_publish)
  have stop: "fst (publish_main w st) \<in> {Returned 1, Raised JSONDecodeError, Raised AttributeError}
              \<and> list_all (\<lambda>a. \<not> is_publish a) new"
    if a: "pw_subprocess w (publish_invocation w [''npm'', ''whoami'']) root_dir \<noteq> 0"
      and b: "\<not> truthy (getenv st ''NODE_AUTH_TOKEN'')"
  proof (cases "pw_npm_packages_exists w \<and> pw_main_package_json w = Object")
    case False
    from publish_main_not_ready [OF this, of st] new show ?thesis by simp
  next
    case True
    then have u: "pw_npm_packages_exists w" "pw_main_package_json w = Object" by simp_all
    from a b assms have r: "publish_main w st = (Returned 1,
        perform (Run (publish_invocation w [''npm'', ''whoami'']) root_dir None
                (pw_subprocess w (publish_invocation w [''npm'', ''whoami'']) root_dir)) st)"
      by (simp add: publish_main_unfold [OF u] Let_def)
    with new have "new = [Run (publish_invocation w [''npm'', ''whoami'']) root_dir None
                (pw_subprocess w (publish_invocation w [''npm'', ''whoami'']) root_dir)]"
      by (simp add: perform_effects)
    with r show ?thesis by (simp add: whoami_not_publish)
  qed
  from prov stop show ?thesis unfolding ne by blast
qed

theorem publish_in_github_actions_witness:
  "is_github_actions (init_state github_actions_env)
   \<and> pw_subprocess (example_pworld whoami_fails)
        (publish_invocation (example_pworld whoami_fails) [''npm'', ''whoami'']) root_dir \<noteq> 0
   \<and> \<not> truthy (getenv (init_state github_actions_env) ''NODE_AUTH_TOKEN'')
   \<and> fst (publish_main (example_pworld whoami_fails) (init_state github_actions_env)) = Returned 1
   \<and> new_effects (init_state github_actions_env)
        (snd (publish_main (example_pworld whoami_fails) (init_state github_actions_env)))
       = [Run (Exec [''npm'', ''whoami'']) [] None 1]
   \<and> list_all (\<lambda>a. \<not> is_publish a)
        (new_effects (init_state github_actions_env)
           (snd (publish_main (example_pworld whoami_fails) (init_state github_actions_env))))
   \<and> is_github_actions (init_state github_actions_token_env)
   \<and> length (filter is_publish
        (new_effects (init_state github_actions_token_env)
           (snd (publish_main (example_pworld whoami_fails) (init_state github_actions_token_env)))))
       = 6
   \<and> list_all (\<lambda>a. is_publish a \<longrightarrow> has_provenance a)
        (new_effects (init_state github_actions_token_env)
           (snd (publish_main (example_pworld whoami_fails) (init_state github_actions_token_env))))"
proof -
  have g: "is_github_actions (init_state github_actions_env)"
    by (simp add: publish_eval)
  have g': "is_github_actions (init_state github_actions_token_env)"
    by (simp add: publish_eval)
  have a: "pw_subprocess (example_pworld whoami_fails)
        (publish_invocation (example_pworld whoami_fails) [''npm'', ''whoami'']) root_dir \<noteq> 0"
    by (simp add: publish_eval publish_invocation_def)
  have b: "\<not> truthy (getenv (init_state github_actions_env) ''NODE_AUTH_TOKEN'')"
    by (simp add: publish_eval)
  have r: "fst (publish_main (example_pworld whoami_fails) (init_state github_actions_env)) = Returned 1"
    by (simp add: publish_eval)
  have e: "new_effects (init_state github_actions_env)
        (snd (publish_main (example_pworld whoami_fails) (init_state github_actions_env)))
       = [Run (Exec [''npm'', ''whoami'']) [] None 1]"
    by (simp add: publish_eval new_effects_def)
  have n: "length (filter is_publish
        (new_effects (init_state github_actions_token_env)
           (snd (publish_main (example_pworld whoami_fails) (init_state github_actions_token_env)))))
       = 6"
    by (simp add: publish_eval new_effects_def is_publish_def)
  from publish_in_github_actions [OF g, of "example_pworld whoami_fails"]
    publish_in_github_actions [OF g', of "example_pworld whoami_fails"] g g' a b r e n
  show ?thesis by simp
qed

subsection \<open>C10: the environment of a toolchain invocation\<close>



end
